theory Spec2Isabelle
  imports Main "HOL-Library.Word" "HOL-Library.Sublist"
begin

section \<open>Output-file management of Fooocus-API (\<^verbatim>\<open>fooocusapi/utils/file_utils.py\<close>)\<close>

text \<open>
  The module keeps generated images under a process-wide output directory, mirrors them to
  an S3-compatible store and converts them for read-back. Its functions are embedded here
  as functions over an explicit world (file system, clock, remote store, log). Every
  exception of the source is a value \<open>Inl e\<close> of a result type \<open>error + 'a\<close>; Python's
  \<open>None\<close> is \<open>None\<close> of an option type. The platform is POSIX (\<open>os.path\<close> is
  \<open>posixpath\<close>), strings are sequences of 8-bit characters.
\<close>

subsection \<open>Python string operations\<close>

type_synonym byte = "8 word"

text \<open>\<^verbatim>\<open>s.split(sep)\<close> for a one-character separator: never the empty list.\<close>

fun split_py :: "char \<Rightarrow> string \<Rightarrow> string list" where
  "split_py sep [] = [[]]"
| "split_py sep (c # cs) =
     (if c = sep then [] # split_py sep cs
      else (case split_py sep cs of
              [] \<Rightarrow> [[c]]
            | x # xs \<Rightarrow> (c # x) # xs))"

text \<open>\<^verbatim>\<open>sep.join(xs)\<close>.\<close>

fun join_py :: "string \<Rightarrow> string list \<Rightarrow> string" where
  "join_py sep [] = []"
| "join_py sep [x] = x"
| "join_py sep (x # y # ys) = x @ sep @ join_py sep (y # ys)"

text \<open>
  The exceptions: \<^verbatim>\<open>OSError\<close> with its subclasses, \<^verbatim>\<open>ValueError\<close> and
  \<^verbatim>\<open>KeyError\<close>, the bare \<^verbatim>\<open>Exception\<close> that \<^verbatim>\<open>save_output_file\<close>
  raises, the two botocore exceptions the module names, and whatever else a library raises.
\<close>

datatype error =
    OSError string
  | ValueError string
  | KeyError string
  | PlainException
  | NoCredentialsError
  | ClientError string
  | LibraryError string

text \<open>
  \<^verbatim>\<open>xs[-2:]\<close>: the last two elements, or all of a shorter list. (\<^verbatim>\<open>xs[-1]\<close> is
  \<open>last xs\<close>; the module applies it to the result of a split only, which is never empty.)
\<close>

definition slice_last2 :: "'a list \<Rightarrow> 'a list" where
  "slice_last2 xs = drop (length xs - 2) xs"

definition upper_letters :: string where
  "upper_letters = ''ABCDEFGHIJKLMNOPQRSTUVWXYZ''"

definition lower_letters :: string where
  "lower_letters = ''abcdefghijklmnopqrstuvwxyz''"

definition lower_char :: "char \<Rightarrow> char" where
  "lower_char c = (case map_of (zip upper_letters lower_letters) c of None \<Rightarrow> c | Some d \<Rightarrow> d)"

definition upper_char :: "char \<Rightarrow> char" where
  "upper_char c = (case map_of (zip lower_letters upper_letters) c of None \<Rightarrow> c | Some d \<Rightarrow> d)"

definition str_lower :: "string \<Rightarrow> string" where
  "str_lower s = map lower_char s"

definition str_upper :: "string \<Rightarrow> string" where
  "str_upper s = map upper_char s"

text \<open>\<^verbatim>\<open>s.startswith('/')\<close>, \<^verbatim>\<open>s.endswith('/')\<close>.\<close>

definition startswith_sep :: "string \<Rightarrow> bool" where
  "startswith_sep s = (case s of [] \<Rightarrow> False | c # _ \<Rightarrow> c = CHR ''/'')"

definition endswith_sep :: "string \<Rightarrow> bool" where
  "endswith_sep s = (s \<noteq> [] \<and> last s = CHR ''/'')"

text \<open>A path with an embedded NUL character is no path to the operating system.\<close>

definition has_nul :: "string \<Rightarrow> bool" where
  "has_nul p = (CHR 0x00 \<in> set p)"

text \<open>How an f-string renders a value of type \<^verbatim>\<open>Optional[str]\<close>.\<close>

definition fmt_opt :: "string option \<Rightarrow> string" where
  "fmt_opt x = (case x of None \<Rightarrow> ''None'' | Some s \<Rightarrow> s)"

subsection \<open>\<^verbatim>\<open>posixpath\<close> and \<^verbatim>\<open>pathlib\<close>\<close>

text \<open>\<^verbatim>\<open>os.path.join(a, b)\<close>: an absolute second argument discards the first.\<close>

definition os_path_join :: "string \<Rightarrow> string \<Rightarrow> string" where
  "os_path_join a b =
     (if startswith_sep b then b
      else if a = [] \<or> endswith_sep a then a @ b
      else a @ ''/'' @ b)"

text \<open>\<^verbatim>\<open>s.rstrip('/')\<close>.\<close>

definition rstrip_sep :: "string \<Rightarrow> string" where
  "rstrip_sep s = rev (dropWhile (\<lambda>c. c = CHR ''/'') (rev s))"

text \<open>
  \<^verbatim>\<open>os.path.dirname(p)\<close>: everything up to the last separator, with trailing
  separators stripped unless the head consists of separators only.
\<close>

definition os_path_dirname :: "string \<Rightarrow> string" where
  "os_path_dirname p =
     (let head = rev (dropWhile (\<lambda>c. c \<noteq> CHR ''/'') (rev p))
      in if head \<noteq> [] \<and> head \<noteq> replicate (length head) (CHR ''/'')
         then rstrip_sep head else head)"

text \<open>
  \<^verbatim>\<open>Path(p).as_posix()\<close> on POSIX: empty and \<^verbatim>\<open>.\<close> components are dropped, a
  leading separator is kept (exactly two leading separators are kept as two), \<^verbatim>\<open>..\<close>
  is left alone, and the empty path is rendered as \<^verbatim>\<open>.\<close>.
\<close>

definition path_anchor :: "string \<Rightarrow> string" where
  "path_anchor p =
     (case p of
        c1 # c2 # c3 # _ \<Rightarrow>
          (if c1 = CHR ''/'' \<and> c2 = CHR ''/'' \<and> c3 \<noteq> CHR ''/'' then ''//''
           else if c1 = CHR ''/'' then ''/'' else [])
      | [c1, c2] \<Rightarrow>
          (if c1 = CHR ''/'' \<and> c2 = CHR ''/'' then ''//''
           else if c1 = CHR ''/'' then ''/'' else [])
      | [c1] \<Rightarrow> (if c1 = CHR ''/'' then ''/'' else [])
      | [] \<Rightarrow> [])"

definition as_posix :: "string \<Rightarrow> string" where
  "as_posix p =
     (let parts = filter (\<lambda>s. s \<noteq> [] \<and> s \<noteq> ''.'') (split_py (CHR ''/'') p);
          r = path_anchor p @ join_py ''/'' parts
      in if r = [] then ''.'' else r)"

subsection \<open>The clock and \<^verbatim>\<open>strftime\<close>\<close>

record datetime =
  year :: nat
  month :: nat
  day :: nat
  hour :: nat
  minute :: nat
  second :: nat

definition digit_char :: "nat \<Rightarrow> char" where
  "digit_char d = ''0123456789'' ! (d mod 10)"

text \<open>The last \<open>w\<close> decimal digits of \<open>n\<close>, zero-padded on the left.\<close>

fun zero_pad :: "nat \<Rightarrow> nat \<Rightarrow> string" where
  "zero_pad 0 n = []"
| "zero_pad (Suc w) n = zero_pad w (n div 10) @ [digit_char n]"

text \<open>
  \<^verbatim>\<open>t.strftime("%Y-%m-%d")\<close>. A \<^verbatim>\<open>datetime\<close> has \<open>1 \<le> year \<le> 9999\<close>,
  \<open>1 \<le> month \<le> 12\<close> and \<open>1 \<le> day \<le> 31\<close>, so four and two digits lose nothing.
\<close>

definition strftime_ymd :: "datetime \<Rightarrow> string" where
  "strftime_ymd t =
     zero_pad 4 (year t) @ ''-'' @ zero_pad 2 (month t) @ ''-'' @ zero_pad 2 (day t)"

subsection \<open>The world: file system, clock, remote store, log\<close>

text \<open>
  The file system is a tree: a map from the list of component names below the root to the
  node found there, a regular file, a directory or a symbolic link with its target path. The
  root itself is always a directory. \<open>locked\<close> marks the entries the process has no
  permission to create, replace or remove. \<open>s3_fault\<close> is what the remote object
  client raises on its next call (missing credentials, a client or transport error), if
  anything.
\<close>

datatype node = File "byte list" | Dir | Link string

type_synonym tree = "string list \<Rightarrow> node option"

datatype level = INFO | WARN | ERROR

record world =
  fs :: tree
  cwd :: "string list"
  locked :: "string list \<Rightarrow> bool"
  clock :: datetime
  remote :: "string \<times> string \<Rightarrow> byte list option"
  s3_fault :: "error option"
  log :: "(level \<times> string) list"

definition node_at :: "tree \<Rightarrow> string list \<Rightarrow> node option" where
  "node_at t k = (if k = [] then Some Dir else t k)"

text \<open>
  Path resolution walks the components from the starting directory; stepping through a
  component needs the current position to be a directory. A symbolic link met on the way is
  replaced by its target; the link in the last position is followed only when \<open>follow\<close>
  is set. Each link followed costs one unit of \<open>fuel\<close>, and resolution fails when
  there is none left (\<^verbatim>\<open>ELOOP\<close>).
\<close>

fun walk :: "nat \<Rightarrow> tree \<Rightarrow> bool \<Rightarrow> string list \<Rightarrow> string list \<Rightarrow> string list option" where
  "walk fuel t follow cur [] = Some cur"
| "walk fuel t follow cur (c # cs) =
     (if node_at t cur \<noteq> Some Dir then None
      else if c = [] \<or> c = ''.'' then walk fuel t follow cur cs
      else if c = ''..'' then walk fuel t follow (butlast cur) cs
      else (case t (cur @ [c]) of
              Some (Link target) \<Rightarrow>
                if cs = [] \<and> \<not> follow then Some (cur @ [c])
                else (case fuel of
                        0 \<Rightarrow> None
                      | Suc fuel' \<Rightarrow>
                          walk fuel' t follow (if startswith_sep target then [] else cur)
                            (split_py (CHR ''/'') target @ cs))
            | _ \<Rightarrow> walk fuel t follow (cur @ [c]) cs))"

definition max_symlinks :: nat where
  "max_symlinks = 40"

definition resolve :: "bool \<Rightarrow> world \<Rightarrow> string \<Rightarrow> string list option" where
  "resolve follow w p =
     (if p = [] \<or> has_nul p then None
      else walk max_symlinks (fs w) follow (if startswith_sep p then [] else cwd w)
             (split_py (CHR ''/'') p))"

text \<open>What a path leads to, through every link (\<^verbatim>\<open>stat\<close>).\<close>

definition lookup :: "world \<Rightarrow> string \<Rightarrow> node option" where
  "lookup w p = (case resolve True w p of None \<Rightarrow> None | Some k \<Rightarrow> node_at (fs w) k)"

text \<open>The entry a path names, a link in the last position not followed (\<^verbatim>\<open>lstat\<close>).\<close>

definition lstat :: "world \<Rightarrow> string \<Rightarrow> node option" where
  "lstat w p = (case resolve False w p of None \<Rightarrow> None | Some k \<Rightarrow> node_at (fs w) k)"

definition os_path_exists :: "world \<Rightarrow> string \<Rightarrow> bool" where
  "os_path_exists w p = (lookup w p \<noteq> None)"

definition os_path_lexists :: "world \<Rightarrow> string \<Rightarrow> bool" where
  "os_path_lexists w p = (lstat w p \<noteq> None)"

definition os_path_isfile :: "world \<Rightarrow> string \<Rightarrow> bool" where
  "os_path_isfile w p = (case lookup w p of Some (File bs) \<Rightarrow> True | _ \<Rightarrow> False)"

definition os_path_isdir :: "world \<Rightarrow> string \<Rightarrow> bool" where
  "os_path_isdir w p = (lookup w p = Some Dir)"

text \<open>
  \<^verbatim>\<open>os.remove(p)\<close> removes a regular file, or a symbolic link itself. A path with an
  embedded NUL character makes it raise \<^verbatim>\<open>ValueError\<close>; every other failure is an
  \<^verbatim>\<open>OSError\<close>.
\<close>

definition os_remove :: "string \<Rightarrow> world \<Rightarrow> error + world" where
  "os_remove p w =
     (if has_nul p then Inl (ValueError ''embedded null byte'')
      else
        (case resolve False w p of
           None \<Rightarrow> Inl (OSError ''ENOENT'')
         | Some k \<Rightarrow>
             (case node_at (fs w) k of
                None \<Rightarrow> Inl (OSError ''ENOENT'')
              | Some Dir \<Rightarrow> Inl (OSError ''EISDIR'')
              | Some n \<Rightarrow>
                  if locked w k then Inl (OSError ''EACCES'')
                  else Inr (w\<lparr>fs := (fs w)(k := None)\<rparr>))))"

text \<open>
  \<^verbatim>\<open>os.makedirs(p, exist_ok=True)\<close>: creates every missing directory on the way,
  going through symbolic links; the directories made before a failure stay.
\<close>

fun mkdirs_walk ::
  "(string list \<Rightarrow> bool) \<Rightarrow> tree \<Rightarrow> string list \<Rightarrow> string list \<Rightarrow> error option \<times> tree" where
  "mkdirs_walk lk t cur [] =
     (if node_at t cur = Some Dir then (None, t) else (Some (OSError ''EEXIST''), t))"
| "mkdirs_walk lk t cur (c # cs) =
     (if node_at t cur \<noteq> Some Dir then (Some (OSError ''ENOTDIR''), t)
      else if c = [] \<or> c = ''.'' then mkdirs_walk lk t cur cs
      else if c = ''..'' then mkdirs_walk lk t (butlast cur) cs
      else (case t (cur @ [c]) of
              None \<Rightarrow>
                if lk (cur @ [c]) then (Some (OSError ''EACCES''), t)
                else mkdirs_walk lk (t(cur @ [c] \<mapsto> Dir)) (cur @ [c]) cs
            | Some (Link target) \<Rightarrow>
                (case walk max_symlinks t True cur [c] of
                   None \<Rightarrow> (Some (OSError ''ELOOP''), t)
                 | Some k \<Rightarrow> mkdirs_walk lk t k cs)
            | Some n \<Rightarrow> mkdirs_walk lk t (cur @ [c]) cs))"

definition os_makedirs :: "string \<Rightarrow> world \<Rightarrow> error option \<times> world" where
  "os_makedirs p w =
     (if has_nul p then (Some (ValueError ''embedded null byte''), w)
      else if p = [] then (Some (OSError ''ENOENT''), w)
      else (case mkdirs_walk (locked w) (fs w) (if startswith_sep p then [] else cwd w)
                   (split_py (CHR ''/'') p) of
              (r, t) \<Rightarrow> (r, w\<lparr>fs := t\<rparr>)))"

text \<open>
  \<^verbatim>\<open>os.rename(src, dst)\<close>: a file or a link replaces a file or a link, a directory
  moves with everything below it. Neither name is followed in its last position.
\<close>

definition move_tree :: "tree \<Rightarrow> string list \<Rightarrow> string list \<Rightarrow> tree" where
  "move_tree t ks kd =
     (\<lambda>k. if prefix kd k then t (ks @ drop (length kd) k)
          else if prefix ks k then None
          else t k)"

definition os_rename :: "string \<Rightarrow> string \<Rightarrow> world \<Rightarrow> error + world" where
  "os_rename src dst w =
     (if has_nul src \<or> has_nul dst then Inl (ValueError ''embedded null byte'')
      else
        (case (resolve False w src, resolve False w dst) of
           (Some ks, Some kd) \<Rightarrow>
             (case node_at (fs w) ks of
                None \<Rightarrow> Inl (OSError ''ENOENT'')
              | Some n \<Rightarrow>
                  if ks = [] \<or> kd = [] then Inl (OSError ''EBUSY'')
                  else if node_at (fs w) (butlast kd) \<noteq> Some Dir then Inl (OSError ''ENOENT'')
                  else if ks = kd then Inr w
                  else if n = Dir \<and> prefix ks kd then Inl (OSError ''EINVAL'')
                  else if n = Dir \<and> node_at (fs w) kd \<noteq> None then Inl (OSError ''ENOTEMPTY'')
                  else if n \<noteq> Dir \<and> node_at (fs w) kd = Some Dir then Inl (OSError ''EISDIR'')
                  else if locked w ks \<or> locked w kd then Inl (OSError ''EACCES'')
                  else Inr (w\<lparr>fs := move_tree (fs w) ks kd\<rparr>))
         | _ \<Rightarrow> Inl (OSError ''ENOENT'')))"

text \<open>
  \<^verbatim>\<open>shutil.move(src, dst)\<close>: into \<open>dst\<close> when that is a directory (refusing to
  overwrite there), onto \<open>dst\<close> otherwise. There is one file system, so the rename
  is never across devices and the copy-and-delete fallback does not arise.
\<close>

definition shutil_move :: "string \<Rightarrow> string \<Rightarrow> world \<Rightarrow> error + world" where
  "shutil_move src dst w =
     (if os_path_isdir w dst then
        (let real_dst = os_path_join dst (last (split_py (CHR ''/'') (rstrip_sep src)))
         in if os_path_exists w real_dst then Inl (LibraryError ''shutil.Error'')
            else os_rename src real_dst w)
      else os_rename src dst w)"

text \<open>
  Modelled from the spec: \<^verbatim>\<open>fooocusapi.utils.logger\<close> is not among the sources. Its
  \<^verbatim>\<open>std_info\<close>, \<^verbatim>\<open>std_warn\<close> and \<^verbatim>\<open>std_error\<close> record one message each
  and do nothing else.
\<close>

definition std_info :: "string \<Rightarrow> world \<Rightarrow> world" where
  "std_info m w = w\<lparr>log := log w @ [(INFO, m)]\<rparr>"

definition std_warn :: "string \<Rightarrow> world \<Rightarrow> world" where
  "std_warn m w = w\<lparr>log := log w @ [(WARN, m)]\<rparr>"

definition std_error :: "string \<Rightarrow> world \<Rightarrow> world" where
  "std_error m w = w\<lparr>log := log w @ [(ERROR, m)]\<rparr>"

subsection \<open>Libraries: base64, the image codec, the object-store client\<close>

definition b64_alphabet :: string where
  "b64_alphabet = ''ABCDEFGHIJKLMNOPQRSTUVWXYZabcdefghijklmnopqrstuvwxyz0123456789+/''"

definition b64_char :: "nat \<Rightarrow> char" where
  "b64_char n = b64_alphabet ! (n mod 64)"

text \<open>\<^verbatim>\<open>base64.b64encode(bs).decode('utf-8')\<close>.\<close>

fun b64encode :: "byte list \<Rightarrow> string" where
  "b64encode (a # b # c # rest) =
     (let n = unat a * 65536 + unat b * 256 + unat c
      in [b64_char (n div 262144), b64_char (n div 4096), b64_char (n div 64), b64_char n]
         @ b64encode rest)"
| "b64encode [a, b] =
     (let n = unat a * 1024 + unat b * 4
      in [b64_char (n div 4096), b64_char (n div 64), b64_char n, CHR ''=''])"
| "b64encode [a] =
     (let n = unat a * 16
      in [b64_char (n div 64), b64_char n, CHR ''='', CHR ''=''])"
| "b64encode [] = []"

text \<open>
  Pillow's decoders and encoders are a parameter: \<open>image_open\<close> decodes the bytes of
  a file (\<^verbatim>\<open>Image.open\<close>), \<open>image_encode\<close> is the encoder registered for a format
  name; both may raise.
\<close>

record 'img pil =
  image_open :: "byte list \<Rightarrow> error + 'img"
  image_encode :: "'img \<Rightarrow> string \<Rightarrow> error + byte list"

text \<open>
  The format names for which Pillow registers an encoder. \<^verbatim>\<open>JPG\<close> is not among
  them: it is a file extension of the format \<^verbatim>\<open>JPEG\<close>, not a format name.
\<close>

definition pillow_save_formats :: "string list" where
  "pillow_save_formats =
     [''BLP'', ''BMP'', ''DDS'', ''DIB'', ''EPS'', ''GIF'', ''ICNS'', ''ICO'', ''IM'',
      ''JPEG'', ''JPEG2000'', ''MPO'', ''MSP'', ''PALM'', ''PCX'', ''PDF'', ''PNG'', ''PPM'',
      ''SGI'', ''SPIDER'', ''TGA'', ''TIFF'', ''WEBP'', ''XBM'']"

text \<open>
  \<^verbatim>\<open>img.save(buffer, format=name)\<close>: looks the encoder up under the upper-cased
  name and raises \<^verbatim>\<open>KeyError\<close> when there is none.
\<close>

definition Image_save :: "'img pil \<Rightarrow> 'img \<Rightarrow> string \<Rightarrow> error + byte list" where
  "Image_save lib img name =
     (if str_upper name \<in> set pillow_save_formats then image_encode lib img (str_upper name)
      else Inl (KeyError (str_upper name)))"

definition Image_open :: "'img pil \<Rightarrow> world \<Rightarrow> string \<Rightarrow> error + 'img" where
  "Image_open lib w p =
     (case lookup w p of
        Some (File bs) \<Rightarrow> image_open lib bs
      | _ \<Rightarrow> Inl (OSError ''ENOENT''))"

record infra_settings =
  MINIO_ACCESS_KEY :: "string option"
  MINIO_SECRET_KEY :: "string option"
  URL_S3 :: "string option"
  BUCKET_NAME :: "string option"

text \<open>
  \<^verbatim>\<open>s3_client.upload_file(Filename, Bucket, Key)\<close>: reads the local file and stores
  its bytes under the key; it writes nothing locally.
\<close>

definition s3_upload_file :: "string \<Rightarrow> string option \<Rightarrow> string \<Rightarrow> world \<Rightarrow> error + world" where
  "s3_upload_file path bucket key w =
     (case s3_fault w of
        Some e \<Rightarrow> Inl e
      | None \<Rightarrow>
          (case lookup w path of
             Some (File bs) \<Rightarrow>
               (case bucket of
                  None \<Rightarrow> Inl (LibraryError ''ParamValidationError'')
                | Some b \<Rightarrow> Inr (w\<lparr>remote := (remote w)((b, key) \<mapsto> bs)\<rparr>))
           | _ \<Rightarrow> Inl (OSError ''ENOENT'')))"

text \<open>How an f-string renders an exception.\<close>

fun error_text :: "error \<Rightarrow> string" where
  "error_text (OSError m) = m"
| "error_text (ValueError m) = m"
| "error_text (KeyError m) = m"
| "error_text PlainException = []"
| "error_text NoCredentialsError = ''Unable to locate credentials''"
| "error_text (ClientError m) = m"
| "error_text (LibraryError m) = m"

subsection \<open>The module\<close>

text \<open>
  The module-level values: \<^verbatim>\<open>output_dir\<close> (an absolute path, computed once from the
  module's location), \<^verbatim>\<open>infra_settings\<close> and the constant
  \<^verbatim>\<open>STATIC_SERVER_BASE\<close>.
\<close>

record globals =
  output_dir :: string
  infra_settings :: infra_settings

definition STATIC_SERVER_BASE :: string where
  "STATIC_SERVER_BASE = ''http://127.0.0.1:8888/files/''"

text \<open>The argument \<^verbatim>\<open>img: np.ndarray | str\<close>.\<close>

datatype img_arg = Ndarray "byte list" | Str string

definition save_output_file ::
  "globals \<Rightarrow> img_arg \<Rightarrow> string \<Rightarrow> string \<Rightarrow> world \<Rightarrow> (error + string) \<times> world" where
  "save_output_file g img image_name extension w =
     (let current_time = clock w;
          date_string = strftime_ymd current_time;
          filename = os_path_join date_string (image_name @ ''.'' @ extension);
          file_path = os_path_join (output_dir g) filename
      in case os_makedirs (os_path_dirname file_path) w of
           (Some e, w1) \<Rightarrow> (Inl e, w1)
         | (None, w1) \<Rightarrow>
             (case img of
                Str src \<Rightarrow>
                  (case shutil_move src file_path w1 of
                     Inl e \<Rightarrow> (Inl PlainException, w1)
                   | Inr w2 \<Rightarrow> (Inr (as_posix file_path), w2))
              | Ndarray px \<Rightarrow> (Inr (as_posix file_path), w1)))"

definition delete_output_file :: "globals \<Rightarrow> string \<Rightarrow> world \<Rightarrow> (error + bool) \<times> world" where
  "delete_output_file g filename w =
     (let file_path = os_path_join (output_dir g) filename;
          w1 = (if \<not> os_path_exists w file_path \<or> \<not> os_path_isfile w file_path
                then std_warn (''[Fooocus API] '' @ filename @ '' not exists or is not a file'') w
                else w)
      in case os_remove file_path w1 of
           Inr w2 \<Rightarrow> (Inr True, std_info (''[Fooocus API] Delete output file: '' @ filename) w2)
         | Inl (OSError m) \<Rightarrow>
             (Inr False, std_error (''[Fooocus API] Delete output file failed: '' @ filename) w1)
         | Inl e \<Rightarrow> (Inl e, w1))"

definition upload_to_minio :: "globals \<Rightarrow> string \<Rightarrow> world \<Rightarrow> (error + string) \<times> world" where
  "upload_to_minio g filename w =
     (let current_date = strftime_ymd (clock w);
          base_name = last (split_py (CHR ''/'') filename);
          s3_key = current_date @ ''/'' @ base_name;
          file_path = os_path_join (output_dir g) filename
      in case s3_upload_file file_path (BUCKET_NAME (infra_settings g)) s3_key w of
           Inr w1 \<Rightarrow>
             (Inr (fmt_opt (URL_S3 (infra_settings g)) @ ''/'' @ s3_key),
              std_info (''File '' @ filename @ '' has been successfully uploaded to MinIO'') w1)
         | Inl NoCredentialsError \<Rightarrow>
             (Inl NoCredentialsError,
              std_error (''Error when uploading to MinIO: '' @ error_text NoCredentialsError) w)
         | Inl (ClientError m) \<Rightarrow>
             (Inl (ClientError m),
              std_error (''Error when uploading to MinIO: '' @ error_text (ClientError m)) w)
         | Inl e \<Rightarrow> (Inl e, w))"

definition output_file_to_base64img ::
  "globals \<Rightarrow> 'img pil \<Rightarrow> string option \<Rightarrow> world \<Rightarrow> error + string option" where
  "output_file_to_base64img g lib filename w =
     (case filename of
        None \<Rightarrow> Inr None
      | Some fname \<Rightarrow>
          (let file_path = os_path_join (output_dir g) fname
           in if \<not> os_path_exists w file_path \<or> \<not> os_path_isfile w file_path then Inr None
              else
                (let ext0 = last (split_py (CHR ''.'') fname);
                     ext = (if str_lower ext0 \<notin> set [''png'', ''jpg'', ''webp'', ''jpeg'']
                            then ''png'' else ext0)
                 in case Image_open lib w file_path of
                      Inl e \<Rightarrow> Inl e
                    | Inr img \<Rightarrow>
                        (case Image_save lib img (str_upper ext) of
                           Inl e \<Rightarrow> Inl e
                         | Inr byte_data \<Rightarrow>
                             Inr (Some (''data:image/'' @ ext @ '';base64,''
                                        @ b64encode byte_data))))))"

definition output_file_to_bytesimg ::
  "globals \<Rightarrow> 'img pil \<Rightarrow> string option \<Rightarrow> world \<Rightarrow> error + byte list option" where
  "output_file_to_bytesimg g lib filename w =
     (case filename of
        None \<Rightarrow> Inr None
      | Some fname \<Rightarrow>
          (let file_path = os_path_join (output_dir g) fname
           in if \<not> os_path_exists w file_path \<or> \<not> os_path_isfile w file_path then Inr None
              else
                (case Image_open lib w file_path of
                   Inl e \<Rightarrow> Inl e
                 | Inr img \<Rightarrow>
                     (case Image_save lib img ''PNG'' of
                        Inl e \<Rightarrow> Inl e
                      | Inr byte_data \<Rightarrow> Inr (Some byte_data)))))"

definition get_file_serve_url :: "globals \<Rightarrow> string option \<Rightarrow> string option" where
  "get_file_serve_url g filename =
     (case filename of
        None \<Rightarrow> None
      | Some fname \<Rightarrow>
          Some (STATIC_SERVER_BASE @ join_py ''/'' (slice_last2 (split_py (CHR ''/'') fname))))"

definition get_file_s3_url :: "globals \<Rightarrow> string option \<Rightarrow> world \<Rightarrow> string option" where
  "get_file_s3_url g filename w =
     (case filename of
        None \<Rightarrow> None
      | Some fname \<Rightarrow>
          (let current_date = strftime_ymd (clock w);
               base_name = last (split_py (CHR ''/'') fname);
               s3_key = current_date @ ''/'' @ base_name
           in Some (fmt_opt (URL_S3 (infra_settings g)) @ ''/'' @ s3_key)))"

subsection \<open>A concrete installation\<close>

text \<open>
  An output directory \<^verbatim>\<open>/app/outputs/files\<close> holding, under \<^verbatim>\<open>2024-03-21\<close>,
  the images \<^verbatim>\<open>old.png\<close>, \<^verbatim>\<open>photo.jpg\<close> and \<^verbatim>\<open>thumb.gif\<close> and a symbolic
  link \<^verbatim>\<open>gone.png\<close> whose target no longer exists; a temporary file
  \<^verbatim>\<open>/tmp/a.png\<close> left by the pipeline; the clock at 2024-03-22 10:00:00. The stand-in
  codec reads a four-byte signature followed by the pixel data, and writes the signature of
  the format asked for in front of the pixel data.
\<close>

definition example_globals :: globals where
  "example_globals =
     \<lparr>output_dir = ''/app/outputs/files'',
      infra_settings =
        \<lparr>MINIO_ACCESS_KEY = Some ''access'', MINIO_SECRET_KEY = Some ''secret'',
         URL_S3 = Some ''http://minio:9000'', BUCKET_NAME = Some ''images''\<rparr>\<rparr>"

definition example_tree :: tree where
  "example_tree =
     [[''app''] \<mapsto> Dir,
      [''app'', ''outputs''] \<mapsto> Dir,
      [''app'', ''outputs'', ''files''] \<mapsto> Dir,
      [''app'', ''outputs'', ''files'', ''2024-03-21''] \<mapsto> Dir,
      [''app'', ''outputs'', ''files'', ''2024-03-21'', ''old.png'']
        \<mapsto> File [137, 80, 78, 71, 1, 2, 3],
      [''app'', ''outputs'', ''files'', ''2024-03-21'', ''photo.jpg'']
        \<mapsto> File [255, 216, 255, 224, 9, 8],
      [''app'', ''outputs'', ''files'', ''2024-03-21'', ''thumb.gif'']
        \<mapsto> File [71, 73, 70, 56, 7],
      [''app'', ''outputs'', ''files'', ''2024-03-21'', ''gone.png'']
        \<mapsto> Link ''/tmp/missing.png'',
      [''tmp''] \<mapsto> Dir,
      [''tmp'', ''a.png''] \<mapsto> File [137, 80, 78, 71, 4, 5]]"

definition example_world :: world where
  "example_world =
     \<lparr>fs = example_tree, cwd = [''app''], locked = (\<lambda>k. False),
      clock = \<lparr>year = 2024, month = 3, day = 22, hour = 10, minute = 0, second = 0\<rparr>,
      remote = Map.empty, s3_fault = None, log = []\<rparr>"

definition example_signature :: "string \<Rightarrow> byte list" where
  "example_signature name =
     (if name = ''PNG'' then [137, 80, 78, 71]
      else if name = ''JPEG'' then [255, 216, 255, 224]
      else if name = ''GIF'' then [71, 73, 70, 56]
      else [82, 73, 70, 70])"

definition example_codec :: "byte list pil" where
  "example_codec =
     \<lparr>image_open =
        (\<lambda>bs. if take 4 bs \<in> set (map example_signature [''PNG'', ''JPEG'', ''GIF'', ''WEBP''])
              then Inr (drop 4 bs)
              else Inl (LibraryError ''UnidentifiedImageError'')),
      image_encode = (\<lambda>img name. Inr (example_signature name @ img))\<rparr>"

section \<open>Properties\<close>

subsection \<open>Splitting and joining\<close>

lemma split_py_not_Nil: "split_py sep s \<noteq> []"
  by (induction s) (auto split: list.splits)

lemma split_py_no_sep: "sep \<notin> set s \<Longrightarrow> split_py sep s = [s]"
  by (induction s) auto

lemma split_py_append:
  "sep \<notin> set b \<Longrightarrow> split_py sep (a @ sep # b) = split_py sep a @ [b]"
proof (induction a)
  case Nil
  then show ?case by (simp add: split_py_no_sep)
next
  case (Cons c a)
  then show ?case
    using split_py_not_Nil [of sep a] by (cases "split_py sep a") auto
qed

lemma last_split_py: "sep \<notin> set b \<Longrightarrow> last (split_py sep (a @ sep # b)) = b"
  by (simp add: split_py_append)

lemma slice_last2_two: "slice_last2 (xs @ [d, b]) = [d, b]"
  by (simp add: slice_last2_def)

lemma split_date_name:
  assumes "CHR ''/'' \<notin> set d" and "CHR ''/'' \<notin> set b"
  shows "split_py (CHR ''/'') (d @ ''/'' @ b) = [d, b]"
  using assms by (simp add: split_py_append split_py_no_sep)

lemma split_root_date_name:
  assumes "CHR ''/'' \<notin> set d" and "CHR ''/'' \<notin> set b"
  shows "split_py (CHR ''/'') (p @ ''/'' @ d @ ''/'' @ b) = split_py (CHR ''/'') p @ [d, b]"
proof -
  have "split_py (CHR ''/'') ((p @ ''/'' @ d) @ ''/'' @ b)
          = split_py (CHR ''/'') (p @ ''/'' @ d) @ [b]"
    using assms(2) split_py_append [of "CHR ''/''" b "p @ ''/'' @ d"] by simp
  moreover have "split_py (CHR ''/'') (p @ ''/'' @ d) = split_py (CHR ''/'') p @ [d]"
    using assms(1) split_py_append [of "CHR ''/''" d p] by simp
  ultimately show ?thesis by simp
qed

subsection \<open>Evaluating the concrete installation\<close>

lemma zero_pad_2: "zero_pad 2 n = [digit_char (n div 10), digit_char n]"
proof -
  have "zero_pad (Suc (Suc 0)) n = [digit_char (n div 10), digit_char n]" by simp
  then show ?thesis by (simp add: numeral_2_eq_2)
qed

lemma zero_pad_4:
  "zero_pad 4 n
     = [digit_char (n div 1000), digit_char (n div 100), digit_char (n div 10), digit_char n]"
proof -
  have four: "(4::nat) = Suc (Suc (Suc (Suc 0)))" by simp
  have "n div 10 div 10 = n div 100" "n div 10 div 10 div 10 = n div 1000"
    by (simp_all add: div_mult2_eq [symmetric])
  then show ?thesis unfolding four by simp
qed

lemmas path_defs = os_path_join_def startswith_sep_def endswith_sep_def os_path_dirname_def
  rstrip_sep_def as_posix_def path_anchor_def

lemmas fs_defs = lookup_def lstat_def resolve_def has_nul_def max_symlinks_def node_at_def
  os_path_exists_def os_path_lexists_def os_path_isfile_def os_path_isdir_def

lemma example_world_fields:
  "fs example_world = example_tree"
  "cwd example_world = [''app'']"
  "locked example_world k = False"
  "remote example_world = Map.empty"
  "s3_fault example_world = None"
  "log example_world = []"
  by (simp_all add: example_world_def)

lemma example_globals_fields:
  "output_dir example_globals = ''/app/outputs/files''"
  "URL_S3 (infra_settings example_globals) = Some ''http://minio:9000''"
  "BUCKET_NAME (infra_settings example_globals) = Some ''images''"
  by (simp_all add: example_globals_def)

lemma example_date: "strftime_ymd (clock example_world) = ''2024-03-22''"
  by (simp add: strftime_ymd_def zero_pad_2 zero_pad_4 digit_char_def example_world_def)

lemma example_lookup_old:
  "lookup example_world ''/app/outputs/files/2024-03-21/old.png''
     = Some (File [137, 80, 78, 71, 1, 2, 3])"
  by (simp add: fs_defs startswith_sep_def example_world_fields example_tree_def)

lemma example_join_old:
  "os_path_join ''/app/outputs/files'' ''2024-03-21/old.png''
     = ''/app/outputs/files/2024-03-21/old.png''"
  by (simp add: path_defs)

lemma example_upload:
  "fst (upload_to_minio example_globals ''2024-03-21/old.png'' example_world)
     = Inr ''http://minio:9000/2024-03-22/old.png''"
  by (simp add: upload_to_minio_def s3_upload_file_def Let_def example_globals_fields
      example_world_fields example_join_old example_lookup_old example_date fmt_opt_def)

subsection \<open>A missing file name\<close>

text \<open>
  Claim C10. Given \<^verbatim>\<open>None\<close> for the file name, \<^verbatim>\<open>output_file_to_base64img\<close>,
  \<^verbatim>\<open>output_file_to_bytesimg\<close>, \<^verbatim>\<open>get_file_serve_url\<close> and
  \<^verbatim>\<open>get_file_s3_url\<close> all return \<^verbatim>\<open>None\<close>: none raises, and the answer is the
  same in every world, so nothing of the file system, the clock or the codec is consulted.
\<close>

theorem none_filename_gives_none:
  "output_file_to_base64img g lib None w = Inr None
   \<and> output_file_to_bytesimg g lib' None w = Inr None
   \<and> get_file_serve_url g None = None
   \<and> get_file_s3_url g None w = None"
  by (simp add: output_file_to_base64img_def output_file_to_bytesimg_def
      get_file_serve_url_def get_file_s3_url_def)

theorem none_filename_gives_none_witness:
  "output_file_to_base64img example_globals example_codec None example_world = Inr None
   \<and> output_file_to_bytesimg example_globals example_codec None example_world = Inr None
   \<and> get_file_serve_url example_globals None = None
   \<and> get_file_s3_url example_globals None example_world = None"
  using none_filename_gives_none [of example_globals example_codec example_world example_codec]
  by simp

subsection \<open>The local serving URL\<close>

text \<open>
  Claim C7. For a file name that is not \<^verbatim>\<open>None\<close>, \<^verbatim>\<open>get_file_serve_url\<close> is the
  fixed base URL followed by the last two \<^verbatim>\<open>/\<close>-separated segments of the name. For
  a name \<open>d/b\<close>, and for any longer path ending in \<open>/d/b\<close>, that is the base URL
  followed by \<open>d/b\<close>. Changing the output root changes nothing.
\<close>

theorem get_file_serve_url_last_two_segments:
  "get_file_serve_url g (Some f)
     = Some (STATIC_SERVER_BASE @ join_py ''/'' (slice_last2 (split_py (CHR ''/'') f)))
   \<and> (CHR ''/'' \<notin> set d \<and> CHR ''/'' \<notin> set b \<longrightarrow>
        get_file_serve_url g (Some (d @ ''/'' @ b)) = Some (STATIC_SERVER_BASE @ d @ ''/'' @ b)
        \<and> get_file_serve_url g (Some (p @ ''/'' @ d @ ''/'' @ b))
            = Some (STATIC_SERVER_BASE @ d @ ''/'' @ b))
   \<and> get_file_serve_url (g\<lparr>output_dir := r\<rparr>) (Some f) = get_file_serve_url g (Some f)"
proof (intro conjI impI)
  show "get_file_serve_url g (Some f)
     = Some (STATIC_SERVER_BASE @ join_py ''/'' (slice_last2 (split_py (CHR ''/'') f)))"
    by (simp add: get_file_serve_url_def)
next
  assume "CHR ''/'' \<notin> set d \<and> CHR ''/'' \<notin> set b"
  then show "get_file_serve_url g (Some (d @ ''/'' @ b)) = Some (STATIC_SERVER_BASE @ d @ ''/'' @ b)"
    using split_date_name [of d b] by (simp add: get_file_serve_url_def slice_last2_def)
next
  assume "CHR ''/'' \<notin> set d \<and> CHR ''/'' \<notin> set b"
  then show "get_file_serve_url g (Some (p @ ''/'' @ d @ ''/'' @ b))
      = Some (STATIC_SERVER_BASE @ d @ ''/'' @ b)"
    using split_root_date_name [of d b p] slice_last2_two [of "split_py (CHR ''/'') p" d b]
    by (simp add: get_file_serve_url_def)
next
  show "get_file_serve_url (g\<lparr>output_dir := r\<rparr>) (Some f) = get_file_serve_url g (Some f)"
    by (simp add: get_file_serve_url_def)
qed

theorem get_file_serve_url_last_two_segments_witness:
  "CHR ''/'' \<notin> set ''2024-03-22'' \<and> CHR ''/'' \<notin> set ''render1.png''
   \<and> get_file_serve_url example_globals (Some ''2024-03-22/render1.png'')
       = Some ''http://127.0.0.1:8888/files/2024-03-22/render1.png''
   \<and> get_file_serve_url example_globals (Some ''/app/outputs/files/2024-03-22/render1.png'')
       = Some ''http://127.0.0.1:8888/files/2024-03-22/render1.png''
   \<and> get_file_serve_url (example_globals\<lparr>output_dir := ''/srv''\<rparr>)
         (Some ''2024-03-22/render1.png'')
       = get_file_serve_url example_globals (Some ''2024-03-22/render1.png'')"
  using get_file_serve_url_last_two_segments
    [of example_globals "''2024-03-22/render1.png''" "''2024-03-22''" "''render1.png''"
        "''/app/outputs/files''" "''/srv''"]
  by (simp add: STATIC_SERVER_BASE_def slice_last2_def)

subsection \<open>Publishing to the object store\<close>

lemma s3_upload_file_frame:
  "s3_upload_file p b k w = Inr w1 \<Longrightarrow>
     fs w1 = fs w \<and> cwd w1 = cwd w \<and> clock w1 = clock w \<and> log w1 = log w"
  by (auto simp: s3_upload_file_def split: option.splits node.splits)

lemma s3_upload_file_stores:
  "s3_upload_file p b k w = Inr w1 \<Longrightarrow>
     \<exists>bucket bs. b = Some bucket \<and> lookup w p = Some (File bs)
        \<and> remote w1 (bucket, k) = Some bs"
  by (auto simp: s3_upload_file_def split: option.splits node.splits)

lemma s3_fault_raises: "s3_fault w = Some e \<Longrightarrow> s3_upload_file p b k w = Inl e"
  by (simp add: s3_upload_file_def)

lemma upload_to_minio_success:
  assumes "upload_to_minio g f w = (Inr url, w')"
  shows "url = fmt_opt (URL_S3 (infra_settings g)) @ ''/'' @ strftime_ymd (clock w) @ ''/''
                 @ last (split_py (CHR ''/'') f)"
    and "\<exists>w1. s3_upload_file (os_path_join (output_dir g) f) (BUCKET_NAME (infra_settings g))
                 (strftime_ymd (clock w) @ ''/'' @ last (split_py (CHR ''/'') f)) w = Inr w1
              \<and> w' = std_info (''File '' @ f @ '' has been successfully uploaded to MinIO'') w1"
  using assms by (auto simp: upload_to_minio_def Let_def split: sum.splits error.splits)

lemma upload_to_minio_failure:
  assumes "s3_upload_file (os_path_join (output_dir g) f) (BUCKET_NAME (infra_settings g))
             (strftime_ymd (clock w) @ ''/'' @ last (split_py (CHR ''/'') f)) w = Inl e"
  shows "fst (upload_to_minio g f w) = Inl e"
  using assms by (auto simp: upload_to_minio_def Let_def split: sum.splits error.splits)

lemma upload_to_minio_frame:
  "fs (snd (upload_to_minio g f w)) = fs w \<and> cwd (snd (upload_to_minio g f w)) = cwd w"
proof (cases "s3_upload_file (os_path_join (output_dir g) f) (BUCKET_NAME (infra_settings g))
                (strftime_ymd (clock w) @ ''/'' @ last (split_py (CHR ''/'') f)) w")
  case (Inl e)
  then show ?thesis
    by (cases e) (simp_all add: upload_to_minio_def Let_def std_error_def)
next
  case (Inr w1)
  with s3_upload_file_frame [OF Inr] show ?thesis
    by (simp add: upload_to_minio_def Let_def std_info_def)
qed

lemma resolve_frame:
  "fs w' = fs w \<Longrightarrow> cwd w' = cwd w \<Longrightarrow> resolve follow w' p = resolve follow w p"
  by (simp add: resolve_def)

lemma lookup_frame:
  assumes "fs w' = fs w" and "cwd w' = cwd w"
  shows "lookup w' p = lookup w p"
  unfolding lookup_def resolve_frame [OF assms] assms(1) ..

lemma strftime_same_day:
  "year t = year t' \<Longrightarrow> month t = month t' \<Longrightarrow> day t = day t'
     \<Longrightarrow> strftime_ymd t = strftime_ymd t'"
  by (simp add: strftime_ymd_def)

text \<open>
  Claim C5. When \<^verbatim>\<open>upload_to_minio\<close> succeeds and the endpoint \<^verbatim>\<open>URL_S3\<close> is set,
  the URL it returns is the endpoint, a slash, and the remote key; the remote key is the
  date of the clock at the call, a slash, and the last \<^verbatim>\<open>/\<close>-segment of the file name.
  The bytes of the local file are stored under exactly that key. For a name \<open>d/b\<close> the
  URL is built from \<open>b\<close> and today's date whatever the segment \<open>d\<close> is.
\<close>

theorem upload_to_minio_key_and_url:
  assumes "upload_to_minio g f w = (Inr url, w')"
      and "URL_S3 (infra_settings g) = Some endpoint"
  shows "url = endpoint @ ''/'' @ strftime_ymd (clock w) @ ''/'' @ last (split_py (CHR ''/'') f)
         \<and> (\<exists>bucket bs. BUCKET_NAME (infra_settings g) = Some bucket
               \<and> lookup w (os_path_join (output_dir g) f) = Some (File bs)
               \<and> remote w' (bucket, strftime_ymd (clock w) @ ''/''
                                     @ last (split_py (CHR ''/'') f)) = Some bs)
         \<and> (\<forall>d b. f = d @ ''/'' @ b \<and> CHR ''/'' \<notin> set b \<longrightarrow>
               url = endpoint @ ''/'' @ strftime_ymd (clock w) @ ''/'' @ b)"
proof (intro conjI allI impI)
  show u: "url = endpoint @ ''/'' @ strftime_ymd (clock w) @ ''/''
                   @ last (split_py (CHR ''/'') f)"
    using upload_to_minio_success(1) [OF assms(1)] assms(2) by (simp add: fmt_opt_def)
  show "\<exists>bucket bs. BUCKET_NAME (infra_settings g) = Some bucket
               \<and> lookup w (os_path_join (output_dir g) f) = Some (File bs)
               \<and> remote w' (bucket, strftime_ymd (clock w) @ ''/''
                                     @ last (split_py (CHR ''/'') f)) = Some bs"
  proof -
    from upload_to_minio_success(2) [OF assms(1)] obtain w1 where
      up: "s3_upload_file (os_path_join (output_dir g) f) (BUCKET_NAME (infra_settings g))
                 (strftime_ymd (clock w) @ ''/'' @ last (split_py (CHR ''/'') f)) w = Inr w1"
      and w': "w' = std_info (''File '' @ f @ '' has been successfully uploaded to MinIO'') w1"
      by blast
    from s3_upload_file_stores [OF up] w' show ?thesis
      by (auto simp: std_info_def)
  qed
  fix d b
  assume "f = d @ ''/'' @ b \<and> CHR ''/'' \<notin> set b"
  then have "last (split_py (CHR ''/'') f) = b"
    using last_split_py [of "CHR ''/''" b d] by simp
  with u show "url = endpoint @ ''/'' @ strftime_ymd (clock w) @ ''/'' @ b" by simp
qed

theorem upload_to_minio_key_and_url_witness:
  "upload_to_minio example_globals ''2024-03-21/old.png'' example_world
     = (Inr ''http://minio:9000/2024-03-22/old.png'',
        snd (upload_to_minio example_globals ''2024-03-21/old.png'' example_world))
   \<and> URL_S3 (infra_settings example_globals) = Some ''http://minio:9000''
   \<and> ''http://minio:9000/2024-03-22/old.png''
       = ''http://minio:9000'' @ ''/'' @ strftime_ymd (clock example_world) @ ''/''
           @ last (split_py (CHR ''/'') ''2024-03-21/old.png'')
   \<and> ''2024-03-21/old.png'' = ''2024-03-21'' @ ''/'' @ ''old.png''
   \<and> CHR ''/'' \<notin> set ''old.png''
   \<and> ''http://minio:9000/2024-03-22/old.png''
       = ''http://minio:9000'' @ ''/'' @ strftime_ymd (clock example_world) @ ''/'' @ ''old.png''"
proof -
  have h: "upload_to_minio example_globals ''2024-03-21/old.png'' example_world
     = (Inr ''http://minio:9000/2024-03-22/old.png'',
        snd (upload_to_minio example_globals ''2024-03-21/old.png'' example_world))"
    by (simp add: prod_eq_iff example_upload)
  have e: "URL_S3 (infra_settings example_globals) = Some ''http://minio:9000''"
    by (simp add: example_globals_fields)
  have c: "''http://minio:9000/2024-03-22/old.png''
       = ''http://minio:9000'' @ ''/'' @ strftime_ymd (clock example_world) @ ''/''
           @ last (split_py (CHR ''/'') ''2024-03-21/old.png'')"
    using upload_to_minio_key_and_url [OF h e] by (rule conjunct1)
  have n: "''2024-03-21/old.png'' = ''2024-03-21'' @ ''/'' @ ''old.png''"
    and b: "CHR ''/'' \<notin> set ''old.png''"
    by simp_all
  have u: "''http://minio:9000/2024-03-22/old.png''
       = ''http://minio:9000'' @ ''/'' @ strftime_ymd (clock example_world) @ ''/'' @ ''old.png''"
    by (rule upload_to_minio_key_and_url
          [OF h e, THEN conjunct2, THEN conjunct2, rule_format, OF conjI [OF n b]])
  show ?thesis by (intro conjI h e c n b u)
qed

text \<open>
  Claim C6. When \<^verbatim>\<open>upload_to_minio\<close> has returned a URL for a file name, then
  \<^verbatim>\<open>get_file_s3_url\<close> for the same name, asked at any moment of the same calendar
  day, returns that same URL.
\<close>

theorem upload_then_s3_url_same_day:
  assumes "upload_to_minio g f w = (Inr url, w1)"
      and "year (clock w2) = year (clock w) \<and> month (clock w2) = month (clock w)
           \<and> day (clock w2) = day (clock w)"
  shows "get_file_s3_url g (Some f) w2 = Some url"
  using upload_to_minio_success(1) [OF assms(1)]
    strftime_same_day [of "clock w2" "clock w"] assms(2)
  by (simp add: get_file_s3_url_def)

theorem upload_then_s3_url_same_day_witness:
  "upload_to_minio example_globals ''2024-03-21/old.png'' example_world
     = (Inr ''http://minio:9000/2024-03-22/old.png'',
        snd (upload_to_minio example_globals ''2024-03-21/old.png'' example_world))
   \<and> get_file_s3_url example_globals (Some ''2024-03-21/old.png'')
         (example_world\<lparr>clock := (clock example_world)\<lparr>hour := 23, minute := 59\<rparr>\<rparr>)
       = Some ''http://minio:9000/2024-03-22/old.png''"
proof -
  have h: "upload_to_minio example_globals ''2024-03-21/old.png'' example_world
     = (Inr ''http://minio:9000/2024-03-22/old.png'',
        snd (upload_to_minio example_globals ''2024-03-21/old.png'' example_world))"
    by (simp add: prod_eq_iff example_upload)
  have d: "year (clock (example_world\<lparr>clock := (clock example_world)\<lparr>hour := 23, minute := 59\<rparr>\<rparr>))
             = year (clock example_world)
           \<and> month (clock (example_world\<lparr>clock := (clock example_world)\<lparr>hour := 23, minute := 59\<rparr>\<rparr>))
             = month (clock example_world)
           \<and> day (clock (example_world\<lparr>clock := (clock example_world)\<lparr>hour := 23, minute := 59\<rparr>\<rparr>))
             = day (clock example_world)"
    by simp
  show ?thesis by (intro conjI h upload_then_s3_url_same_day [OF h d])
qed

text \<open>
  Claim C9. Whatever the object-store client raises, \<^verbatim>\<open>upload_to_minio\<close> raises to its
  caller; in particular missing credentials and a client error are logged and raised again.
  Whether the upload succeeds or fails, the local file system after the call is the one
  before it, so the file the name resolves to is neither changed nor removed.
\<close>

theorem upload_to_minio_raises_and_keeps_local_file:
  "(s3_upload_file (os_path_join (output_dir g) f) (BUCKET_NAME (infra_settings g))
             (strftime_ymd (clock w) @ ''/'' @ last (split_py (CHR ''/'') f)) w = Inl e
      \<longrightarrow> fst (upload_to_minio g f w) = Inl e)
   \<and> (s3_fault w = Some NoCredentialsError
      \<longrightarrow> fst (upload_to_minio g f w) = Inl NoCredentialsError)
   \<and> (s3_fault w = Some (ClientError m)
      \<longrightarrow> fst (upload_to_minio g f w) = Inl (ClientError m))
   \<and> fs (snd (upload_to_minio g f w)) = fs w
   \<and> lookup (snd (upload_to_minio g f w)) (os_path_join (output_dir g) f)
       = lookup w (os_path_join (output_dir g) f)"
  using upload_to_minio_failure [of g f w] s3_fault_raises [of w] upload_to_minio_frame [of g f w]
    lookup_frame [of "snd (upload_to_minio g f w)" w]
  by auto

theorem upload_to_minio_raises_and_keeps_local_file_witness:
  "s3_fault (example_world\<lparr>s3_fault := Some NoCredentialsError\<rparr>) = Some NoCredentialsError
   \<and> fst (upload_to_minio example_globals ''2024-03-21/old.png''
            (example_world\<lparr>s3_fault := Some NoCredentialsError\<rparr>)) = Inl NoCredentialsError
   \<and> fs (snd (upload_to_minio example_globals ''2024-03-21/old.png''
            (example_world\<lparr>s3_fault := Some NoCredentialsError\<rparr>))) = example_tree
   \<and> s3_fault (example_world\<lparr>s3_fault := Some (ClientError ''AccessDenied'')\<rparr>)
       = Some (ClientError ''AccessDenied'')
   \<and> s3_upload_file (os_path_join (output_dir example_globals) ''2024-03-21/old.png'')
         (BUCKET_NAME (infra_settings example_globals))
         (strftime_ymd (clock (example_world\<lparr>s3_fault := Some (ClientError ''AccessDenied'')\<rparr>))
            @ ''/'' @ last (split_py (CHR ''/'') ''2024-03-21/old.png''))
         (example_world\<lparr>s3_fault := Some (ClientError ''AccessDenied'')\<rparr>)
       = Inl (ClientError ''AccessDenied'')
   \<and> fst (upload_to_minio example_globals ''2024-03-21/old.png''
            (example_world\<lparr>s3_fault := Some (ClientError ''AccessDenied'')\<rparr>))
       = Inl (ClientError ''AccessDenied'')
   \<and> fs (snd (upload_to_minio example_globals ''2024-03-21/old.png'' example_world))
       = example_tree"
proof -
  have c: "s3_upload_file (os_path_join (output_dir example_globals) ''2024-03-21/old.png'')
         (BUCKET_NAME (infra_settings example_globals))
         (strftime_ymd (clock (example_world\<lparr>s3_fault := Some (ClientError ''AccessDenied'')\<rparr>))
            @ ''/'' @ last (split_py (CHR ''/'') ''2024-03-21/old.png''))
         (example_world\<lparr>s3_fault := Some (ClientError ''AccessDenied'')\<rparr>)
       = Inl (ClientError ''AccessDenied'')"
    by (simp add: s3_upload_file_def)
  show ?thesis
    using c
      upload_to_minio_raises_and_keeps_local_file
        [of example_globals "''2024-03-21/old.png''"
            "example_world\<lparr>s3_fault := Some NoCredentialsError\<rparr>" NoCredentialsError "[]"]
      upload_to_minio_raises_and_keeps_local_file
        [of example_globals "''2024-03-21/old.png''"
            "example_world\<lparr>s3_fault := Some (ClientError ''AccessDenied'')\<rparr>"
            "ClientError ''AccessDenied''" "''AccessDenied''"]
      upload_to_minio_raises_and_keeps_local_file
        [of example_globals "''2024-03-21/old.png''" example_world NoCredentialsError "[]"]
    by (simp add: example_world_fields)
qed

subsection \<open>Deleting\<close>

lemma walk_after_remove:
  "walk fuel t nf cur cs = Some k \<Longrightarrow> \<not> nf \<Longrightarrow>
   (\<forall>x. x \<noteq> k \<longrightarrow> t' x = t x) \<Longrightarrow> t' k = None \<Longrightarrow> t k \<noteq> Some Dir \<Longrightarrow> k \<noteq> [] \<Longrightarrow>
     walk fuel t' follow cur cs = None \<or> walk fuel t' follow cur cs = Some k"
proof (induction fuel t nf cur cs rule: walk.induct)
  case (1 fuel t nf cur)
  then show ?case by simp
next
  case (2 fuel t nf cur c cs)
  note w0 = "2.prems"(1) and nf = "2.prems"(2)
  note rest = "2.prems"(2-6)
  from "2.prems" have same: "\<And>x. x \<noteq> k \<Longrightarrow> t' x = t x" and gone: "t' k = None"
    and nodir: "t k \<noteq> Some Dir" and k: "k \<noteq> []" by simp_all
  have dirs: "\<And>x. (node_at t' x = Some Dir) = (node_at t x = Some Dir)"
  proof -
    fix x
    show "(node_at t' x = Some Dir) = (node_at t x = Some Dir)"
    proof (cases "x = k")
      case True
      with gone nodir k show ?thesis by (simp add: node_at_def)
    next
      case False
      with same [OF False] show ?thesis by (simp add: node_at_def)
    qed
  qed
  from w0 have dir: "node_at t cur = Some Dir"
    by (auto split: if_splits)
  then have dir': "node_at t' cur = Some Dir" by (simp add: dirs)
  show ?case
  proof (cases "c = [] \<or> c = ''.''")
    case True
    with w0 dir have "walk fuel t nf cur cs = Some k" by auto
    with "2.IH"(1) True dir rest
    have "walk fuel t' follow cur cs = None \<or> walk fuel t' follow cur cs = Some k" by auto
    with True dir' show ?thesis by auto
  next
    case nodot: False
    show ?thesis
    proof (cases "c = ''..''")
      case True
      with w0 dir nodot have "walk fuel t nf (butlast cur) cs = Some k" by auto
      with "2.IH"(2) True nodot dir rest
      have "walk fuel t' follow (butlast cur) cs = None
            \<or> walk fuel t' follow (butlast cur) cs = Some k" by auto
      with True nodot dir' show ?thesis by auto
    next
      case name: False
      show ?thesis
      proof (cases "cur @ [c] = k")
        case at_k: True
        then have tk: "t' (cur @ [c]) = None" using gone by simp
        show ?thesis
        proof (cases cs)
          case Nil
          with tk nodot name dir' at_k show ?thesis by simp
        next
          case (Cons c2 cs2)
          have "node_at t' k \<noteq> Some Dir" using gone k by (simp add: node_at_def)
          with tk nodot name dir' at_k Cons show ?thesis by simp
        qed
      next
        case other: False
        then have te: "t' (cur @ [c]) = t (cur @ [c])" by (rule same)
        show ?thesis
        proof (cases "\<exists>target. t (cur @ [c]) = Some (Link target)")
          case True
          then obtain target where link: "t (cur @ [c]) = Some (Link target)" by blast
          have cs: "cs \<noteq> []"
          proof
            assume "cs = []"
            with w0 nf dir nodot name link have "cur @ [c] = k" by simp
            with other show False by simp
          qed
          with w0 dir nodot name link obtain fuel' where
            fuel: "fuel = Suc fuel'"
            and w: "walk fuel' t nf (if startswith_sep target then [] else cur)
                      (split_py (CHR ''/'') target @ cs) = Some k"
            by (cases fuel) auto
          have "walk fuel' t' follow (if startswith_sep target then [] else cur)
                  (split_py (CHR ''/'') target @ cs) = None
                \<or> walk fuel' t' follow (if startswith_sep target then [] else cur)
                  (split_py (CHR ''/'') target @ cs) = Some k"
            using "2.IH"(6) [of "Link target" target fuel'] dir nodot name link cs fuel w
              rest by simp
          with dir' nodot name te link cs fuel show ?thesis by simp
        next
          case False
          with w0 dir nodot name have w: "walk fuel t nf (cur @ [c]) cs = Some k"
            by (auto split: option.splits node.splits)
          have "walk fuel t' follow (cur @ [c]) cs = None
                \<or> walk fuel t' follow (cur @ [c]) cs = Some k"
          proof (cases "t (cur @ [c])")
            case None
            with "2.IH"(3) dir nodot name w rest show ?thesis by simp
          next
            case (Some n)
            show ?thesis
            proof (cases n)
              case (File bs)
              with "2.IH"(4) [of n bs] Some dir nodot name w rest show ?thesis by simp
            next
              case Dir
              with "2.IH"(5) [of n] Some dir nodot name w rest show ?thesis by simp
            next
              case (Link target)
              with Some False show ?thesis by simp
            qed
          qed
          with dir' nodot name te False show ?thesis
            by (auto split: option.splits node.splits)
        qed
      qed
    qed
  qed
qed




lemma os_remove_Inr:
  assumes "os_remove p w = Inr w'"
  shows "\<exists>k. resolve False w p = Some k \<and> k \<noteq> [] \<and> fs w k \<noteq> None \<and> fs w k \<noteq> Some Dir
            \<and> w' = w\<lparr>fs := (fs w)(k := None)\<rparr>"
  using assms
  by (auto simp: os_remove_def node_at_def split: option.splits node.splits if_splits)




lemma resolve_after_remove:
  assumes "os_remove p w = Inr w'"
  shows "\<exists>k. (resolve follow w' p = None \<or> resolve follow w' p = Some k) \<and> node_at (fs w') k = None"
proof -
  from os_remove_Inr [OF assms] obtain k where
    r: "resolve False w p = Some k" and k: "k \<noteq> []" and nodir: "fs w k \<noteq> Some Dir"
    and w': "w' = w\<lparr>fs := (fs w)(k := None)\<rparr>" by blast
  from r have p: "p \<noteq> []" "\<not> has_nul p"
    and wk: "walk max_symlinks (fs w) False (if startswith_sep p then [] else cwd w)
               (split_py (CHR ''/'') p) = Some k"
    by (auto simp: resolve_def split: if_splits)
  have "walk max_symlinks (fs w') follow (if startswith_sep p then [] else cwd w)
            (split_py (CHR ''/'') p) = None
        \<or> walk max_symlinks (fs w') follow (if startswith_sep p then [] else cwd w)
            (split_py (CHR ''/'') p) = Some k"
    using wk
  proof (rule walk_after_remove)
    show "\<not> False" by simp
    show "\<forall>x. x \<noteq> k \<longrightarrow> fs w' x = fs w x" by (simp add: w')
    show "fs w' k = None" by (simp add: w')
    show "fs w k \<noteq> Some Dir" by (rule nodir)
    show "k \<noteq> []" by (rule k)
  qed
  then have "resolve follow w' p = None \<or> resolve follow w' p = Some k"
    using p by (cases "startswith_sep p") (simp_all add: resolve_def w')
  moreover have "node_at (fs w') k = None" using k by (simp add: node_at_def w')
  ultimately show ?thesis by blast
qed

lemma lookup_after_remove:
  assumes "os_remove p w = Inr w'"
  shows "lookup w' p = None" and "lstat w' p = None"
  using resolve_after_remove [OF assms, of True] resolve_after_remove [OF assms, of False]
  by (auto simp: lookup_def lstat_def)

lemma resolve_log: "resolve follow (w\<lparr>log := l\<rparr>) p = resolve follow w p"
  by (simp add: resolve_def)

lemma lookup_log: "lookup (w\<lparr>log := l\<rparr>) p = lookup w p"
  by (simp add: lookup_def resolve_log split: option.splits)

lemma lstat_log: "lstat (w\<lparr>log := l\<rparr>) p = lstat w p"
  by (simp add: lstat_def resolve_log split: option.splits)

lemma os_remove_log:
  "os_remove p (w\<lparr>log := l\<rparr>)
     = (case os_remove p w of Inl e \<Rightarrow> Inl e | Inr w' \<Rightarrow> Inr (w'\<lparr>log := l\<rparr>))"
  by (simp add: os_remove_def resolve_log split: option.splits node.splits)

lemma warned_world:
  "(if c then std_warn m w else w) = w\<lparr>log := (if c then log w @ [(WARN, m)] else log w)\<rparr>"
  by (simp add: std_warn_def)

lemma delete_output_file_cases:
  "delete_output_file g f w =
     (case os_remove (os_path_join (output_dir g) f) w of
        Inr w2 \<Rightarrow>
          (Inr True,
           std_info (''[Fooocus API] Delete output file: '' @ f)
             (w2\<lparr>log := (if \<not> os_path_exists w (os_path_join (output_dir g) f)
                              \<or> \<not> os_path_isfile w (os_path_join (output_dir g) f)
                           then log w @ [(WARN, ''[Fooocus API] '' @ f
                                                   @ '' not exists or is not a file'')]
                           else log w)\<rparr>))
      | Inl e \<Rightarrow>
          (case e of
             OSError m \<Rightarrow>
               (Inr False,
                std_error (''[Fooocus API] Delete output file failed: '' @ f)
                  (w\<lparr>log := (if \<not> os_path_exists w (os_path_join (output_dir g) f)
                                  \<or> \<not> os_path_isfile w (os_path_join (output_dir g) f)
                               then log w @ [(WARN, ''[Fooocus API] '' @ f
                                                       @ '' not exists or is not a file'')]
                               else log w)\<rparr>))
           | _ \<Rightarrow>
               (Inl e,
                w\<lparr>log := (if \<not> os_path_exists w (os_path_join (output_dir g) f)
                                \<or> \<not> os_path_isfile w (os_path_join (output_dir g) f)
                             then log w @ [(WARN, ''[Fooocus API] '' @ f
                                                     @ '' not exists or is not a file'')]
                             else log w)\<rparr>)))"
  unfolding delete_output_file_def Let_def warned_world os_remove_log
  by (simp split: sum.splits error.splits)

lemma delete_success:
  assumes "delete_output_file g f w = (Inr True, w')"
  shows "\<exists>w1 l. os_remove (os_path_join (output_dir g) f) w = Inr w1 \<and> w' = w1\<lparr>log := l\<rparr>"
proof (cases "os_remove (os_path_join (output_dir g) f) w")
  case (Inl e)
  with assms show ?thesis
    by (cases e) (simp_all add: delete_output_file_cases)
next
  case (Inr w1)
  with assms show ?thesis
    by (auto simp: delete_output_file_cases std_info_def)
qed

lemma delete_lookup_after:
  assumes "delete_output_file g f w = (Inr True, w')"
  shows "lookup w' (os_path_join (output_dir g) f) = None"
    and "lstat w' (os_path_join (output_dir g) f) = None"
  using delete_success [OF assms] lookup_after_remove
  by (auto simp: lookup_log lstat_log)







lemma example_resolve_old:
  "resolve False example_world ''/app/outputs/files/2024-03-21/old.png''
     = Some [''app'', ''outputs'', ''files'', ''2024-03-21'', ''old.png'']"
  by (simp add: resolve_def has_nul_def max_symlinks_def node_at_def startswith_sep_def
      example_world_fields example_tree_def)

lemma example_delete_old:
  "fst (delete_output_file example_globals ''2024-03-21/old.png'' example_world) = Inr True"
  by (simp add: delete_output_file_cases example_globals_fields example_join_old
      os_remove_def has_nul_def example_resolve_old node_at_def example_world_fields
      example_tree_def)











subsection \<open>Reading back what is not there\<close>

lemma example_not_exists:
  "\<not> os_path_exists example_world
       (os_path_join (output_dir example_globals) ''2024-03-21/none.png'')"
  by (simp add: example_globals_fields path_defs fs_defs example_world_fields example_tree_def)

lemma read_back_absent:
  assumes "\<not> os_path_exists w (os_path_join (output_dir g) f)
           \<or> \<not> os_path_isfile w (os_path_join (output_dir g) f)"
  shows "output_file_to_base64img g lib (Some f) w = Inr None"
    and "output_file_to_bytesimg g lib' (Some f) w = Inr None"
  using assms by (auto simp: output_file_to_base64img_def output_file_to_bytesimg_def)

text \<open>
  Claim C3. After \<^verbatim>\<open>delete_output_file\<close> has returned \<^verbatim>\<open>True\<close> for a name, and
  in general whenever the path the name resolves to does not exist or is not a regular file,
  \<^verbatim>\<open>output_file_to_base64img\<close> and \<^verbatim>\<open>output_file_to_bytesimg\<close> return
  \<^verbatim>\<open>None\<close> for that name; they do not raise.
\<close>

theorem read_back_after_delete_is_none:
  "(delete_output_file g f w = (Inr True, w')
      \<longrightarrow> output_file_to_base64img g lib (Some f) w' = Inr None
          \<and> output_file_to_bytesimg g lib' (Some f) w' = Inr None)
   \<and> (\<not> os_path_exists w (os_path_join (output_dir g) f)
        \<or> \<not> os_path_isfile w (os_path_join (output_dir g) f)
      \<longrightarrow> output_file_to_base64img g lib (Some f) w = Inr None
          \<and> output_file_to_bytesimg g lib' (Some f) w = Inr None)"
proof (intro conjI impI)
  assume d: "delete_output_file g f w = (Inr True, w')"
  have "lookup w' (os_path_join (output_dir g) f) = None"
    using d by (rule delete_lookup_after(1))
  then have a: "\<not> os_path_exists w' (os_path_join (output_dir g) f)
           \<or> \<not> os_path_isfile w' (os_path_join (output_dir g) f)"
    by (simp add: os_path_exists_def)
  show "output_file_to_base64img g lib (Some f) w' = Inr None"
    using a by (rule read_back_absent(1))
  show "output_file_to_bytesimg g lib' (Some f) w' = Inr None"
    using a by (rule read_back_absent(2))
next
  assume a: "\<not> os_path_exists w (os_path_join (output_dir g) f)
        \<or> \<not> os_path_isfile w (os_path_join (output_dir g) f)"
  show "output_file_to_base64img g lib (Some f) w = Inr None"
    using a by (rule read_back_absent(1))
  show "output_file_to_bytesimg g lib' (Some f) w = Inr None"
    using a by (rule read_back_absent(2))
qed

theorem read_back_after_delete_is_none_witness:
  "delete_output_file example_globals ''2024-03-21/old.png'' example_world
     = (Inr True, snd (delete_output_file example_globals ''2024-03-21/old.png'' example_world))
   \<and> output_file_to_base64img example_globals example_codec (Some ''2024-03-21/old.png'')
         (snd (delete_output_file example_globals ''2024-03-21/old.png'' example_world))
       = Inr None
   \<and> output_file_to_bytesimg example_globals example_codec (Some ''2024-03-21/old.png'')
         (snd (delete_output_file example_globals ''2024-03-21/old.png'' example_world))
       = Inr None
   \<and> \<not> os_path_exists example_world
         (os_path_join (output_dir example_globals) ''2024-03-21/none.png'')
   \<and> output_file_to_base64img example_globals example_codec (Some ''2024-03-21/none.png'')
         example_world = Inr None
   \<and> output_file_to_bytesimg example_globals example_codec (Some ''2024-03-21/none.png'')
         example_world = Inr None"
proof -
  have h: "delete_output_file example_globals ''2024-03-21/old.png'' example_world
     = (Inr True, snd (delete_output_file example_globals ''2024-03-21/old.png'' example_world))"
    by (simp add: prod_eq_iff example_delete_old)
  show ?thesis
    using h example_not_exists
      read_back_after_delete_is_none [of example_globals "''2024-03-21/old.png''" example_world
        "snd (delete_output_file example_globals ''2024-03-21/old.png'' example_world)"
        example_codec example_codec]
      read_back_after_delete_is_none [of example_globals "''2024-03-21/none.png''" example_world
        example_world example_codec example_codec]
    by simp
qed

subsection \<open>Reading back an image\<close>

lemma upper_char_lower_char: "upper_char (lower_char c) = upper_char c"
  by (simp add: upper_char_def lower_char_def upper_letters_def lower_letters_def)

lemma str_upper_lower: "str_upper (str_lower s) = str_upper s"
  by (simp add: str_upper_def str_lower_def upper_char_lower_char)

lemma upper_char_idem: "upper_char (upper_char c) = upper_char c"
  by (simp add: upper_char_def upper_letters_def lower_letters_def)

lemma str_upper_idem: "str_upper (str_upper s) = str_upper s"
  by (simp add: str_upper_def upper_char_idem)

lemma str_upper_names:
  "str_upper ''png'' = ''PNG''" "str_upper ''jpg'' = ''JPG''"
  "str_upper ''webp'' = ''WEBP''" "str_upper ''jpeg'' = ''JPEG''"
  "str_upper ''PNG'' = ''PNG''" "str_upper ''JPG'' = ''JPG''"
  "str_upper ''WEBP'' = ''WEBP''" "str_upper ''JPEG'' = ''JPEG''"
  by (simp_all add: str_upper_def upper_char_def lower_letters_def upper_letters_def)

lemma str_upper_of_lower: "str_lower e = n \<Longrightarrow> str_upper e = str_upper n"
  using str_upper_lower [of e] by simp

lemma Image_save_jpg:
  assumes "str_lower e = ''jpg''"
  shows "Image_save lib img (str_upper e) = Inl (KeyError ''JPG'')"
proof -
  have "str_upper e = ''JPG''"
    using str_upper_of_lower [OF assms] by (simp add: str_upper_names)
  then show ?thesis
    by (simp add: Image_save_def str_upper_names str_upper_idem pillow_save_formats_def)
qed

lemma Image_save_registered:
  assumes "str_lower e \<in> {''png'', ''webp'', ''jpeg''}"
  shows "Image_save lib img (str_upper e) = image_encode lib img (str_upper e)"
proof -
  from assms have "str_upper e \<in> {''PNG'', ''WEBP'', ''JPEG''}"
    using str_upper_of_lower [of e] by (auto simp: str_upper_names)
  then have "str_upper e \<in> set pillow_save_formats"
    by (auto simp: pillow_save_formats_def)
  then show ?thesis unfolding Image_save_def str_upper_idem by simp
qed

lemma Image_save_PNG: "Image_save lib img ''PNG'' = image_encode lib img ''PNG''"
  by (simp add: Image_save_def str_upper_names pillow_save_formats_def)

lemma read_back_present:
  assumes "os_path_exists w (os_path_join (output_dir g) f)
           \<and> os_path_isfile w (os_path_join (output_dir g) f)"
      and "Image_open lib w (os_path_join (output_dir g) f) = Inr img"
  shows "output_file_to_base64img g lib (Some f) w =
           (case Image_save lib img
                   (str_upper (if str_lower (last (split_py (CHR ''.'') f))
                                    \<in> {''png'', ''jpg'', ''webp'', ''jpeg''}
                               then last (split_py (CHR ''.'') f) else ''png'')) of
              Inl e \<Rightarrow> Inl e
            | Inr payload \<Rightarrow>
                Inr (Some (''data:image/''
                     @ (if str_lower (last (split_py (CHR ''.'') f))
                            \<in> {''png'', ''jpg'', ''webp'', ''jpeg''}
                        then last (split_py (CHR ''.'') f) else ''png'')
                     @ '';base64,'' @ b64encode payload)))"
    and "output_file_to_bytesimg g lib (Some f) w =
           (case Image_save lib img ''PNG'' of Inl e \<Rightarrow> Inl e | Inr png \<Rightarrow> Inr (Some png))"
  using assms
  by (auto simp: output_file_to_base64img_def output_file_to_bytesimg_def Let_def
      split: sum.splits)

lemma example_lookup_photo:
  "lookup example_world ''/app/outputs/files/2024-03-21/photo.jpg''
     = Some (File [255, 216, 255, 224, 9, 8])"
  by (simp add: fs_defs startswith_sep_def example_world_fields example_tree_def)

lemma example_lookup_thumb:
  "lookup example_world ''/app/outputs/files/2024-03-21/thumb.gif''
     = Some (File [71, 73, 70, 56, 7])"
  by (simp add: fs_defs startswith_sep_def example_world_fields example_tree_def)

lemma example_join_photo:
  "os_path_join (output_dir example_globals) ''2024-03-21/photo.jpg''
     = ''/app/outputs/files/2024-03-21/photo.jpg''"
  by (simp add: example_globals_fields path_defs)

lemma example_join_thumb:
  "os_path_join (output_dir example_globals) ''2024-03-21/thumb.gif''
     = ''/app/outputs/files/2024-03-21/thumb.gif''"
  by (simp add: example_globals_fields path_defs)

lemma example_join_old_globals:
  "os_path_join (output_dir example_globals) ''2024-03-21/old.png''
     = ''/app/outputs/files/2024-03-21/old.png''"
  by (simp add: example_globals_fields path_defs)

lemma example_exts:
  "last (split_py (CHR ''.'') ''2024-03-21/old.png'') = ''png''"
  "last (split_py (CHR ''.'') ''2024-03-21/photo.jpg'') = ''jpg''"
  "last (split_py (CHR ''.'') ''2024-03-21/thumb.gif'') = ''gif''"
  by simp_all

lemma str_lower_names:
  "str_lower ''png'' = ''png''" "str_lower ''jpg'' = ''jpg''" "str_lower ''gif'' = ''gif''"
  by (simp_all add: str_lower_def lower_char_def lower_letters_def upper_letters_def)

lemma example_open:
  "image_open example_codec [137, 80, 78, 71, 1, 2, 3] = Inr [1, 2, 3]"
  "image_open example_codec [255, 216, 255, 224, 9, 8] = Inr [9, 8]"
  "image_open example_codec [71, 73, 70, 56, 7] = Inr [7]"
  by (simp_all add: example_codec_def example_signature_def)

lemma example_encode:
  "image_encode example_codec img ''PNG'' = Inr ([137, 80, 78, 71] @ img)"
  by (simp add: example_codec_def example_signature_def)

lemma example_b64:
  "b64encode [137, 80, 78, 71, 1, 2, 3] = ''iVBORwECAw==''"
  "b64encode [137, 80, 78, 71, 7] = ''iVBORwc=''"
  by (simp_all add: b64_char_def b64_alphabet_def)

text \<open>
  Claim C8, what the code does. Let the name resolve to an existing regular file that the
  codec decodes, and let \<open>e\<close> be what follows the last dot of the name. If \<open>e\<close> in lower
  case is \<^verbatim>\<open>jpg\<close>, \<^verbatim>\<open>output_file_to_base64img\<close> asks Pillow for the format
  \<^verbatim>\<open>JPG\<close>, which Pillow does not have, and raises \<^verbatim>\<open>KeyError\<close>. If it is one of
  png, webp, jpeg, the image is encoded under \<open>e\<close> in upper case and the result is
  \<^verbatim>\<open>data:image/\<close>\<open>e\<close>\<^verbatim>\<open>;base64,\<close> followed by the base64 text of the encoding;
  for any other \<open>e\<close> the image is encoded as PNG and the result starts with
  \<^verbatim>\<open>data:image/png;base64,\<close>. \<^verbatim>\<open>output_file_to_bytesimg\<close> returns the PNG
  encoding whatever the name is.
\<close>

theorem base64_by_extension_jpg_raises_bytes_as_png:
  assumes "os_path_exists w (os_path_join (output_dir g) f)
           \<and> os_path_isfile w (os_path_join (output_dir g) f)"
      and "Image_open lib w (os_path_join (output_dir g) f) = Inr img"
      and "e = last (split_py (CHR ''.'') f)"
  shows "(str_lower e = ''jpg''
          \<longrightarrow> output_file_to_base64img g lib (Some f) w = Inl (KeyError ''JPG''))
         \<and> (str_lower e \<in> {''png'', ''webp'', ''jpeg''}
            \<and> image_encode lib img (str_upper e) = Inr payload
          \<longrightarrow> output_file_to_base64img g lib (Some f) w
                = Inr (Some (''data:image/'' @ e @ '';base64,'' @ b64encode payload)))
         \<and> (str_lower e \<notin> {''png'', ''jpg'', ''webp'', ''jpeg''}
            \<and> image_encode lib img ''PNG'' = Inr payload
          \<longrightarrow> output_file_to_base64img g lib (Some f) w
                = Inr (Some (''data:image/png;base64,'' @ b64encode payload)))
         \<and> (image_encode lib img ''PNG'' = Inr png
          \<longrightarrow> output_file_to_bytesimg g lib (Some f) w = Inr (Some png))"
proof (intro conjI impI)
  note rb = read_back_present [OF assms(1) assms(2), folded assms(3)]
  {
    assume j: "str_lower e = ''jpg''"
    show "output_file_to_base64img g lib (Some f) w = Inl (KeyError ''JPG'')"
      using rb(1) j Image_save_jpg [OF j, of lib img] by simp
  }
  {
    assume a: "str_lower e \<in> {''png'', ''webp'', ''jpeg''}
               \<and> image_encode lib img (str_upper e) = Inr payload"
    then have "Image_save lib img (str_upper e) = Inr payload"
      using Image_save_registered [of e lib img] by simp
    with a show "output_file_to_base64img g lib (Some f) w
                = Inr (Some (''data:image/'' @ e @ '';base64,'' @ b64encode payload))"
      using rb(1) by auto
  }
  {
    assume a: "str_lower e \<notin> {''png'', ''jpg'', ''webp'', ''jpeg''}
               \<and> image_encode lib img ''PNG'' = Inr payload"
    then have "Image_save lib img (str_upper ''png'') = Inr payload"
      by (simp add: str_upper_names Image_save_PNG)
    with a show "output_file_to_base64img g lib (Some f) w
                = Inr (Some (''data:image/png;base64,'' @ b64encode payload))"
      using rb(1) by simp
  }
  {
    assume "image_encode lib img ''PNG'' = Inr png"
    then show "output_file_to_bytesimg g lib (Some f) w = Inr (Some png)"
      using rb(2) by (simp add: Image_save_PNG)
  }
qed

theorem base64_by_extension_jpg_raises_bytes_as_png_witness:
  "os_path_exists example_world
     (os_path_join (output_dir example_globals) ''2024-03-21/photo.jpg'')
   \<and> os_path_isfile example_world
     (os_path_join (output_dir example_globals) ''2024-03-21/photo.jpg'')
   \<and> Image_open example_codec example_world
         (os_path_join (output_dir example_globals) ''2024-03-21/photo.jpg'') = Inr [9, 8]
   \<and> str_lower (last (split_py (CHR ''.'') ''2024-03-21/photo.jpg'')) = ''jpg''
   \<and> output_file_to_base64img example_globals example_codec (Some ''2024-03-21/photo.jpg'')
         example_world = Inl (KeyError ''JPG'')
   \<and> output_file_to_bytesimg example_globals example_codec (Some ''2024-03-21/photo.jpg'')
         example_world = Inr (Some [137, 80, 78, 71, 9, 8])
   \<and> output_file_to_base64img example_globals example_codec (Some ''2024-03-21/old.png'')
         example_world = Inr (Some ''data:image/png;base64,iVBORwECAw=='')
   \<and> output_file_to_base64img example_globals example_codec (Some ''2024-03-21/thumb.gif'')
         example_world = Inr (Some ''data:image/png;base64,iVBORwc='')"
proof -
  have x1: "os_path_exists example_world
              (os_path_join (output_dir example_globals) ''2024-03-21/photo.jpg'')
            \<and> os_path_isfile example_world
              (os_path_join (output_dir example_globals) ''2024-03-21/photo.jpg'')"
    by (simp add: example_join_photo os_path_exists_def os_path_isfile_def example_lookup_photo)
  have o1: "Image_open example_codec example_world
              (os_path_join (output_dir example_globals) ''2024-03-21/photo.jpg'') = Inr [9, 8]"
    by (simp add: example_join_photo Image_open_def example_lookup_photo example_open)
  have x2: "os_path_exists example_world
              (os_path_join (output_dir example_globals) ''2024-03-21/old.png'')
            \<and> os_path_isfile example_world
              (os_path_join (output_dir example_globals) ''2024-03-21/old.png'')"
    by (simp add: example_join_old_globals os_path_exists_def os_path_isfile_def
        example_lookup_old)
  have o2: "Image_open example_codec example_world
              (os_path_join (output_dir example_globals) ''2024-03-21/old.png'') = Inr [1, 2, 3]"
    by (simp add: example_join_old_globals Image_open_def example_lookup_old example_open)
  have x3: "os_path_exists example_world
              (os_path_join (output_dir example_globals) ''2024-03-21/thumb.gif'')
            \<and> os_path_isfile example_world
              (os_path_join (output_dir example_globals) ''2024-03-21/thumb.gif'')"
    by (simp add: example_join_thumb os_path_exists_def os_path_isfile_def example_lookup_thumb)
  have o3: "Image_open example_codec example_world
              (os_path_join (output_dir example_globals) ''2024-03-21/thumb.gif'') = Inr [7]"
    by (simp add: example_join_thumb Image_open_def example_lookup_thumb example_open)
  have j: "str_lower (last (split_py (CHR ''.'') ''2024-03-21/photo.jpg'')) = ''jpg''"
    by (simp add: str_lower_names)
  have e1: "''jpg'' = last (split_py (CHR ''.'') ''2024-03-21/photo.jpg'')"
    and e2: "''png'' = last (split_py (CHR ''.'') ''2024-03-21/old.png'')"
    and e3: "''gif'' = last (split_py (CHR ''.'') ''2024-03-21/thumb.gif'')"
    by simp_all
  have c1: "output_file_to_base64img example_globals example_codec
              (Some ''2024-03-21/photo.jpg'') example_world = Inl (KeyError ''JPG'')"
    and c2: "output_file_to_bytesimg example_globals example_codec
              (Some ''2024-03-21/photo.jpg'') example_world = Inr (Some [137, 80, 78, 71, 9, 8])"
    using base64_by_extension_jpg_raises_bytes_as_png
            [OF x1 o1 e1, of "[]" "[137, 80, 78, 71, 9, 8]"]
    by (simp_all add: str_lower_names example_encode)
  have c3: "output_file_to_base64img example_globals example_codec
              (Some ''2024-03-21/old.png'') example_world
            = Inr (Some ''data:image/png;base64,iVBORwECAw=='')"
    using base64_by_extension_jpg_raises_bytes_as_png
            [OF x2 o2 e2, of "[137, 80, 78, 71, 1, 2, 3]" "[]"]
    by (simp add: str_lower_names str_upper_names example_encode b64_char_def b64_alphabet_def)
  have c4: "output_file_to_base64img example_globals example_codec
              (Some ''2024-03-21/thumb.gif'') example_world
            = Inr (Some ''data:image/png;base64,iVBORwc='')"
    using base64_by_extension_jpg_raises_bytes_as_png
            [OF x3 o3 e3, of "[137, 80, 78, 71, 7]" "[]"]
    by (simp add: str_lower_names example_encode b64_char_def b64_alphabet_def)
  from x1 have x1a: "os_path_exists example_world
              (os_path_join (output_dir example_globals) ''2024-03-21/photo.jpg'')"
    and x1b: "os_path_isfile example_world
              (os_path_join (output_dir example_globals) ''2024-03-21/photo.jpg'')"
    by simp_all
  show ?thesis by (intro conjI x1a x1b o1 j c1 c2 c3 c4)
qed

subsection \<open>Persisting\<close>

lemma join_py_append:
  "xs \<noteq> [] \<Longrightarrow> ys \<noteq> [] \<Longrightarrow> join_py sep (xs @ ys) = join_py sep xs @ sep @ join_py sep ys"
proof (induction sep xs rule: join_py.induct)
  case (1 sep)
  then show ?case by simp
next
  case (2 sep x)
  then show ?case by (cases ys) simp_all
next
  case (3 sep x y ys')
  then show ?case by simp
qed

lemma path_anchor_extend:
  assumes "startswith_sep od" and "\<not> endswith_sep od"
  shows "path_anchor (od @ CHR ''/'' # rest) = path_anchor od"
proof (cases od)
  case Nil
  with assms show ?thesis by (simp add: startswith_sep_def)
next
  case (Cons c1 r1)
  show ?thesis
  proof (cases r1)
    case Nil
    with Cons assms show ?thesis by (simp add: startswith_sep_def endswith_sep_def)
  next
    case (Cons c2 r2)
    note r1 = this
    show ?thesis
    proof (cases r2)
      case Nil
      with \<open>od = c1 # r1\<close> r1 assms show ?thesis
        by (simp add: startswith_sep_def endswith_sep_def path_anchor_def)
    next
      case (Cons c3 r3)
      with \<open>od = c1 # r1\<close> r1 show ?thesis by (simp add: path_anchor_def)
    qed
  qed
qed

lemma digit_char_digit: "digit_char d \<in> set ''0123456789''"
proof -
  have "d mod 10 < length ''0123456789''" by simp
  then show ?thesis unfolding digit_char_def by (rule nth_mem)
qed

lemma zero_pad_digits: "set (zero_pad w n) \<subseteq> set ''0123456789''"
  using digit_char_digit by (induction w n rule: zero_pad.induct) auto

lemma length_zero_pad: "length (zero_pad w n) = w"
  by (induction w n rule: zero_pad.induct) auto

lemma strftime_ymd_no_sep: "CHR ''/'' \<notin> set (strftime_ymd t)"
  using zero_pad_digits [of 4 "year t"] zero_pad_digits [of 2 "month t"]
    zero_pad_digits [of 2 "day t"]
  by (auto simp: strftime_ymd_def)

lemma length_strftime_ymd: "length (strftime_ymd t) = 10"
  by (simp add: strftime_ymd_def length_zero_pad)

lemma no_sep_not_endswith: "CHR ''/'' \<notin> set s \<Longrightarrow> \<not> endswith_sep s"
  by (metis endswith_sep_def last_in_set)

lemma no_sep_not_startswith: "CHR ''/'' \<notin> set s \<Longrightarrow> \<not> startswith_sep s"
  by (cases s) (auto simp: startswith_sep_def)

lemma strftime_ymd_shape:
  "strftime_ymd t \<noteq> []" "strftime_ymd t \<noteq> ''.''"
  using length_strftime_ymd [of t] by auto

lemma as_posix_extend:
  assumes od: "as_posix od = od" "startswith_sep od" "\<not> endswith_sep od"
      and d: "CHR ''/'' \<notin> set d" "d \<noteq> []" "d \<noteq> ''.''"
      and n: "CHR ''/'' \<notin> set n" "n \<noteq> []" "n \<noteq> ''.''"
  shows "as_posix (od @ ''/'' @ d @ ''/'' @ n) = od @ ''/'' @ d @ ''/'' @ n"
proof -
  let ?ok = "\<lambda>s. s \<noteq> [] \<and> s \<noteq> ''.''"
  let ?parts = "filter ?ok (split_py (CHR ''/'') od)"
  from od(2) have ne: "od \<noteq> []" by (auto simp: startswith_sep_def)
  define r0 where "r0 = path_anchor od @ join_py ''/'' ?parts"
  have "as_posix od = (if r0 = [] then ''.'' else r0)"
    unfolding r0_def as_posix_def Let_def ..
  with od(1) have r0: "(if r0 = [] then ''.'' else r0) = od" by simp
  have r: "path_anchor od @ join_py ''/'' ?parts = od"
  proof (cases "r0 = []")
    case True
    with r0 have "od = ''.''" by simp
    with od(2) show ?thesis by (simp add: startswith_sep_def)
  next
    case False
    with r0 have "r0 = od" by simp
    then show ?thesis by (simp only: r0_def)
  qed
  have parts: "?parts \<noteq> []"
  proof
    assume "?parts = []"
    with r have "path_anchor od = od" by simp
    moreover have "path_anchor od = [] \<or> path_anchor od = ''/'' \<or> path_anchor od = ''//''"
      by (auto simp: path_anchor_def split: list.splits)
    ultimately show False using ne od(3) by (auto simp: endswith_sep_def)
  qed
  have sp: "split_py (CHR ''/'') (od @ ''/'' @ d @ ''/'' @ n) = split_py (CHR ''/'') od @ [d, n]"
    using d(1) n(1) by (rule split_root_date_name)
  have fl: "filter ?ok (split_py (CHR ''/'') (od @ ''/'' @ d @ ''/'' @ n)) = ?parts @ [d, n]"
    unfolding sp using d n by simp
  have jn: "join_py ''/'' (?parts @ [d, n]) = join_py ''/'' ?parts @ ''/'' @ d @ ''/'' @ n"
    using join_py_append [OF parts, of "[d, n]" "''/''"] by simp
  have an: "path_anchor (od @ ''/'' @ d @ ''/'' @ n) = path_anchor od"
    using path_anchor_extend [OF od(2) od(3), of "d @ ''/'' @ n"] by simp
  have "(path_anchor od @ join_py ''/'' ?parts) @ (''/'' @ d @ ''/'' @ n)
          = od @ (''/'' @ d @ ''/'' @ n)"
    by (simp only: r)
  then have "path_anchor od @ join_py ''/'' ?parts @ ''/'' @ d @ ''/'' @ n
          = od @ ''/'' @ d @ ''/'' @ n"
    by (simp only: append_assoc)
  then have e: "path_anchor (od @ ''/'' @ d @ ''/'' @ n)
          @ join_py ''/'' (filter ?ok (split_py (CHR ''/'') (od @ ''/'' @ d @ ''/'' @ n)))
        = od @ ''/'' @ d @ ''/'' @ n"
    by (simp only: an fl jn)
  have "od @ ''/'' @ d @ ''/'' @ n \<noteq> []" using ne by simp
  with e show ?thesis
    unfolding as_posix_def Let_def by (simp only: if_False)
qed

lemma not_startswith_append:
  "a \<noteq> [] \<Longrightarrow> \<not> startswith_sep a \<Longrightarrow> \<not> startswith_sep (a @ b)"
  by (cases a) (auto simp: startswith_sep_def)

lemma startswith_append: "startswith_sep a \<Longrightarrow> startswith_sep (a @ b)"
  by (cases a) (auto simp: startswith_sep_def)

lemma file_path_shape:
  assumes "od \<noteq> []" and "\<not> endswith_sep od"
      and "CHR ''/'' \<notin> set name" and "CHR ''/'' \<notin> set ext"
  shows "os_path_join od (os_path_join (strftime_ymd t) (name @ ''.'' @ ext))
           = od @ ''/'' @ strftime_ymd t @ ''/'' @ name @ ''.'' @ ext"
proof -
  have "CHR ''/'' \<notin> set (name @ ''.'' @ ext)" using assms(3,4) by simp
  then have "\<not> startswith_sep (name @ ''.'' @ ext)" by (rule no_sep_not_startswith)
  then have inner: "os_path_join (strftime_ymd t) (name @ ''.'' @ ext)
                      = strftime_ymd t @ ''/'' @ name @ ''.'' @ ext"
    using strftime_ymd_shape(1) [of t] no_sep_not_endswith [OF strftime_ymd_no_sep, of t]
    by (simp add: os_path_join_def)
  have "\<not> startswith_sep (strftime_ymd t @ ''/'' @ name @ ''.'' @ ext)"
    using strftime_ymd_shape(1) no_sep_not_startswith [OF strftime_ymd_no_sep]
    by (rule not_startswith_append)
  then show ?thesis
    unfolding inner using assms(1,2) by (simp add: os_path_join_def)
qed

lemma save_output_file_Inr:
  assumes "fst (save_output_file g img name ext w) = Inr p"
  shows "p = as_posix (os_path_join (output_dir g)
                 (os_path_join (strftime_ymd (clock w)) (name @ ''.'' @ ext)))"
  using assms
  by (auto simp: save_output_file_def Let_def
      split: prod.splits option.splits img_arg.splits sum.splits)

lemma fun_upd_dir_file:
  "t x = None \<Longrightarrow> ((t(x \<mapsto> Dir)) k = Some (File bs)) = (t k = Some (File bs))"
  by auto

lemma mkdirs_walk_Cons_cases:
  assumes "mkdirs_walk lk t cur (c # cs) = (r, t')"
  shows "t' = t
         \<or> (\<exists>cur2. mkdirs_walk lk t cur2 cs = (r, t'))
         \<or> (t (cur @ [c]) = None
              \<and> mkdirs_walk lk (t(cur @ [c] \<mapsto> Dir)) (cur @ [c]) cs = (r, t'))"
proof (cases "node_at t cur = Some Dir")
  case False
  with assms show ?thesis by simp
next
  case dir: True
  show ?thesis
  proof (cases "c = [] \<or> c = ''.'' \<or> c = ''..''")
    case True
    with assms dir show ?thesis by (auto split: if_splits)
  next
    case name: False
    show ?thesis
    proof (cases "t (cur @ [c])")
      case None
      with assms dir name show ?thesis by (auto split: if_splits)
    next
      case (Some n)
      show ?thesis
      proof (cases n)
        case (File bs)
        with assms dir name Some show ?thesis by auto
      next
        case Dir
        with assms dir name Some show ?thesis by auto
      next
        case (Link target)
        with assms dir name Some show ?thesis
          by (cases "walk max_symlinks t True cur [c]") auto
      qed
    qed
  qed
qed

lemma mkdirs_walk_keeps_files:
  "mkdirs_walk lk t cur cs = (r, t') \<Longrightarrow> (t' k = Some (File bs)) = (t k = Some (File bs))"
proof (induction cs arbitrary: t cur)
  case Nil
  then show ?case by (auto split: if_splits)
next
  case (Cons c cs)
  from mkdirs_walk_Cons_cases [OF Cons.prems] show ?case
  proof (elim disjE exE conjE)
    assume "t' = t"
    then show ?thesis by simp
  next
    fix cur2
    assume "mkdirs_walk lk t cur2 cs = (r, t')"
    then show ?thesis by (rule Cons.IH)
  next
    assume none: "t (cur @ [c]) = None"
      and rec: "mkdirs_walk lk (t(cur @ [c] \<mapsto> Dir)) (cur @ [c]) cs = (r, t')"
    have "(t' k = Some (File bs)) = ((t(cur @ [c] \<mapsto> Dir)) k = Some (File bs))"
      using rec by (rule Cons.IH)
    also have "\<dots> = (t k = Some (File bs))"
      using none by (rule fun_upd_dir_file)
    finally show ?thesis .
  qed
qed

lemma os_makedirs_keeps_files:
  assumes "os_makedirs p w = (r, w')"
  shows "(fs w' k = Some (File bs)) = (fs w k = Some (File bs))"
proof (cases "has_nul p \<or> p = []")
  case True
  with assms show ?thesis by (auto simp: os_makedirs_def split: if_splits)
next
  case False
  obtain r0 t0 where m: "mkdirs_walk (locked w) (fs w) (if startswith_sep p then [] else cwd w)
                           (split_py (CHR ''/'') p) = (r0, t0)"
    by (cases "mkdirs_walk (locked w) (fs w) (if startswith_sep p then [] else cwd w)
                 (split_py (CHR ''/'') p)")
  with assms False have "w' = w\<lparr>fs := t0\<rparr>" by (simp add: os_makedirs_def)
  then have "fs w' = t0" by simp
  with mkdirs_walk_keeps_files [OF m, of k bs] show ?thesis by simp
qed

lemma example_save_path:
  "os_path_join ''/app/outputs/files'' (os_path_join ''2024-03-22'' ''render1.png'')
     = ''/app/outputs/files/2024-03-22/render1.png''"
  by (simp add: path_defs)

lemma example_save_dirname:
  "os_path_dirname ''/app/outputs/files/2024-03-22/render1.png'' = ''/app/outputs/files/2024-03-22''"
  by (simp add: path_defs)

lemma example_as_posix:
  "as_posix ''/app/outputs/files/2024-03-22/render1.png'' = ''/app/outputs/files/2024-03-22/render1.png''"
  by (simp add: path_defs)

lemma example_makedirs:
  "os_makedirs ''/app/outputs/files/2024-03-22'' example_world
     = (None, example_world\<lparr>fs := example_tree([''app'', ''outputs'', ''files'', ''2024-03-22''] \<mapsto> Dir)\<rparr>)"
  by (simp add: os_makedirs_def has_nul_def startswith_sep_def node_at_def example_world_fields
      example_tree_def)

lemma example_save_ndarray:
  "save_output_file example_globals (Ndarray px) ''render1'' ''png'' example_world
     = (Inr ''/app/outputs/files/2024-03-22/render1.png'',
        example_world\<lparr>fs := example_tree([''app'', ''outputs'', ''files'', ''2024-03-22''] \<mapsto> Dir)\<rparr>)"
  by (simp add: save_output_file_def Let_def example_globals_fields example_date
      example_save_path example_save_dirname example_makedirs example_as_posix)

lemma example_lookup_after_save_ndarray:
  "lookup (example_world\<lparr>fs := example_tree([''app'', ''outputs'', ''files'', ''2024-03-22''] \<mapsto> Dir)\<rparr>)
      ''/app/outputs/files/2024-03-22/render1.png'' = None"
  by (simp add: fs_defs startswith_sep_def example_world_def example_tree_def)

lemma example_move:
  "shutil_move ''/tmp/a.png'' ''/app/outputs/files/2024-03-22/render1.png''
     (example_world\<lparr>fs := example_tree([''app'', ''outputs'', ''files'', ''2024-03-22''] \<mapsto> Dir)\<rparr>)
   = Inr (example_world\<lparr>fs := move_tree
            (example_tree([''app'', ''outputs'', ''files'', ''2024-03-22''] \<mapsto> Dir))
            [''tmp'', ''a.png''] [''app'', ''outputs'', ''files'', ''2024-03-22'', ''render1.png'']\<rparr>)"
  by (simp add: shutil_move_def os_rename_def fs_defs startswith_sep_def example_world_def
      example_tree_def)

lemma example_save_str:
  "save_output_file example_globals (Str ''/tmp/a.png'') ''render1'' ''png'' example_world
     = (Inr ''/app/outputs/files/2024-03-22/render1.png'',
        example_world\<lparr>fs := move_tree
            (example_tree([''app'', ''outputs'', ''files'', ''2024-03-22''] \<mapsto> Dir))
            [''tmp'', ''a.png''] [''app'', ''outputs'', ''files'', ''2024-03-22'', ''render1.png'']\<rparr>)"
  by (simp add: save_output_file_def Let_def example_globals_fields example_date
      example_save_path example_save_dirname example_makedirs example_as_posix example_move)

lemma example_lookup_after_save_str:
  "lookup (example_world\<lparr>fs := move_tree
            (example_tree([''app'', ''outputs'', ''files'', ''2024-03-22''] \<mapsto> Dir))
            [''tmp'', ''a.png''] [''app'', ''outputs'', ''files'', ''2024-03-22'', ''render1.png'']\<rparr>)
      ''/app/outputs/files/2024-03-22/render1.png'' = Some (File [137, 80, 78, 71, 4, 5])"
  by (simp add: fs_defs startswith_sep_def example_world_def example_tree_def move_tree_def)

lemma save_ndarray_world:
  assumes "save_output_file g (Ndarray px) name ext w = (r, w')"
  shows "\<exists>e. os_makedirs (os_path_dirname (os_path_join (output_dir g)
                 (os_path_join (strftime_ymd (clock w)) (name @ ''.'' @ ext)))) w = (e, w')"
  using assms
  by (auto simp: save_output_file_def Let_def split: prod.splits option.splits)

lemma example_as_posix_output_dir:
  "as_posix (output_dir example_globals) = output_dir example_globals
   \<and> startswith_sep (output_dir example_globals)
   \<and> \<not> endswith_sep (output_dir example_globals)"
  by (simp add: example_globals_fields path_defs)

text \<open>
  Claim C1, what the code does instead. Given a pixel buffer, \<^verbatim>\<open>save_output_file\<close> creates the
  date directory and returns a path, but writes no file: the regular files of the file
  system after the call are exactly those before it, with the same bytes. Reading the
  returned path back therefore gives \<^verbatim>\<open>None\<close> unless a file of that name was there
  already.
\<close>

theorem save_output_file_ndarray_writes_no_file:
  assumes "save_output_file g (Ndarray px) name ext w = (r, w')"
  shows "(fs w' k = Some (File bs)) = (fs w k = Some (File bs))"
proof -
  from save_ndarray_world [OF assms] obtain e where
    "os_makedirs (os_path_dirname (os_path_join (output_dir g)
        (os_path_join (strftime_ymd (clock w)) (name @ ''.'' @ ext)))) w = (e, w')"
    by blast
  then show ?thesis by (rule os_makedirs_keeps_files)
qed

theorem save_output_file_ndarray_writes_no_file_witness:
  "save_output_file example_globals (Ndarray [0, 0, 0]) ''render1'' ''png'' example_world
     = (Inr ''/app/outputs/files/2024-03-22/render1.png'',
        example_world\<lparr>fs := example_tree([''app'', ''outputs'', ''files'', ''2024-03-22'']
                                          \<mapsto> Dir)\<rparr>)
   \<and> (\<forall>bs. fs (example_world\<lparr>fs := example_tree([''app'', ''outputs'', ''files'', ''2024-03-22'']
                                          \<mapsto> Dir)\<rparr>)
              [''app'', ''outputs'', ''files'', ''2024-03-22'', ''render1.png'']
            \<noteq> Some (File bs))
   \<and> output_file_to_bytesimg example_globals example_codec
         (Some ''/app/outputs/files/2024-03-22/render1.png'')
         (example_world\<lparr>fs := example_tree([''app'', ''outputs'', ''files'', ''2024-03-22'']
                                          \<mapsto> Dir)\<rparr>) = Inr None
   \<and> output_file_to_base64img example_globals example_codec
         (Some ''/app/outputs/files/2024-03-22/render1.png'')
         (example_world\<lparr>fs := example_tree([''app'', ''outputs'', ''files'', ''2024-03-22'']
                                          \<mapsto> Dir)\<rparr>) = Inr None"
proof (intro conjI allI)
  show h: "save_output_file example_globals (Ndarray [0, 0, 0]) ''render1'' ''png'' example_world
     = (Inr ''/app/outputs/files/2024-03-22/render1.png'',
        example_world\<lparr>fs := example_tree([''app'', ''outputs'', ''files'', ''2024-03-22'']
                                          \<mapsto> Dir)\<rparr>)"
    by (rule example_save_ndarray)
  fix bs
  have "fs example_world [''app'', ''outputs'', ''files'', ''2024-03-22'', ''render1.png'']
          \<noteq> Some (File bs)"
    by (simp add: example_world_fields example_tree_def)
  then show "fs (example_world\<lparr>fs := example_tree([''app'', ''outputs'', ''files'', ''2024-03-22'']
                                          \<mapsto> Dir)\<rparr>)
              [''app'', ''outputs'', ''files'', ''2024-03-22'', ''render1.png'']
            \<noteq> Some (File bs)"
    using save_output_file_ndarray_writes_no_file [OF h,
        of "[''app'', ''outputs'', ''files'', ''2024-03-22'', ''render1.png'']" bs]
    by blast
next
  have a: "\<not> os_path_exists
             (example_world\<lparr>fs := example_tree([''app'', ''outputs'', ''files'', ''2024-03-22'']
                                          \<mapsto> Dir)\<rparr>)
             (os_path_join (output_dir example_globals)
                ''/app/outputs/files/2024-03-22/render1.png'')
           \<or> \<not> os_path_isfile
             (example_world\<lparr>fs := example_tree([''app'', ''outputs'', ''files'', ''2024-03-22'']
                                          \<mapsto> Dir)\<rparr>)
             (os_path_join (output_dir example_globals)
                ''/app/outputs/files/2024-03-22/render1.png'')"
    by (simp add: os_path_join_def startswith_sep_def os_path_exists_def
        example_lookup_after_save_ndarray)
  show "output_file_to_bytesimg example_globals example_codec
         (Some ''/app/outputs/files/2024-03-22/render1.png'')
         (example_world\<lparr>fs := example_tree([''app'', ''outputs'', ''files'', ''2024-03-22'']
                                          \<mapsto> Dir)\<rparr>) = Inr None"
    using a by (rule read_back_absent(2))
  show "output_file_to_base64img example_globals example_codec
         (Some ''/app/outputs/files/2024-03-22/render1.png'')
         (example_world\<lparr>fs := example_tree([''app'', ''outputs'', ''files'', ''2024-03-22'']
                                          \<mapsto> Dir)\<rparr>) = Inr None"
    using a by (rule read_back_absent(1))
qed

lemma save_output_file_normal:
  assumes "fst (save_output_file g img name ext w) = Inr p"
      and "as_posix (output_dir g) = output_dir g \<and> startswith_sep (output_dir g)
           \<and> \<not> endswith_sep (output_dir g)"
      and "name \<noteq> [] \<and> CHR ''/'' \<notin> set name \<and> CHR ''/'' \<notin> set ext"
  shows "p = output_dir g @ ''/'' @ strftime_ymd (clock w) @ ''/'' @ name @ ''.'' @ ext
         \<and> startswith_sep p
         \<and> p \<noteq> strftime_ymd (clock w) @ ''/'' @ name @ ''.'' @ ext
         \<and> join_py ''/'' (slice_last2 (split_py (CHR ''/'') p))
             = strftime_ymd (clock w) @ ''/'' @ name @ ''.'' @ ext"
proof -
  let ?d = "strftime_ymd (clock w)"
  let ?n = "name @ ''.'' @ ext"
  from assms(2) have od: "as_posix (output_dir g) = output_dir g" "startswith_sep (output_dir g)"
    "\<not> endswith_sep (output_dir g)" by simp_all
  from od(2) have ne: "output_dir g \<noteq> []" by (auto simp: startswith_sep_def)
  from assms(3) have n: "CHR ''/'' \<notin> set ?n" "?n \<noteq> []" "?n \<noteq> ''.''"
    by (auto simp: append_eq_Cons_conv)
  have fp: "os_path_join (output_dir g) (os_path_join ?d ?n) = output_dir g @ ''/'' @ ?d @ ''/'' @ ?n"
  proof (rule file_path_shape)
    show "output_dir g \<noteq> []" by (rule ne)
    show "\<not> endswith_sep (output_dir g)" by (rule od(3))
    show "CHR ''/'' \<notin> set name" using assms(3) by simp
    show "CHR ''/'' \<notin> set ext" using assms(3) by simp
  qed
  have "p = as_posix (output_dir g @ ''/'' @ ?d @ ''/'' @ ?n)"
    using save_output_file_Inr [OF assms(1)] unfolding fp .
  also have "\<dots> = output_dir g @ ''/'' @ ?d @ ''/'' @ ?n"
    using od strftime_ymd_no_sep strftime_ymd_shape n by (rule as_posix_extend)
  finally have p: "p = output_dir g @ ''/'' @ ?d @ ''/'' @ ?n" .
  have abs: "startswith_sep p" unfolding p using od(2) by (rule startswith_append)
  have rel: "\<not> startswith_sep (?d @ ''/'' @ ?n)"
    using strftime_ymd_shape(1) no_sep_not_startswith [OF strftime_ymd_no_sep]
    by (rule not_startswith_append)
  have seg: "split_py (CHR ''/'') p = split_py (CHR ''/'') (output_dir g) @ [?d, ?n]"
    unfolding p using strftime_ymd_no_sep n(1) by (rule split_root_date_name)
  have "join_py ''/'' (slice_last2 (split_py (CHR ''/'') p)) = ?d @ ''/'' @ ?n"
    unfolding seg slice_last2_two by simp
  with p abs rel show ?thesis by auto
qed

text \<open>
  Claim C2, in the form that holds of the code. Every successful call of
  \<^verbatim>\<open>save_output_file\<close> returns \<^verbatim>\<open>Path(file_path).as_posix()\<close>, where
  \<^verbatim>\<open>file_path\<close> is the output directory joined with the date of the clock joined
  with \<open>name.ext\<close>. When the output directory is absolute and in normal form (no
  trailing separator, no empty or \<^verbatim>\<open>.\<close> segment), the base name is non-empty and
  without a separator and the extension is without a separator, this is the absolute path
  \<open>output_dir/YYYY-MM-DD/name.ext\<close>; it is not the relative path
  \<open>YYYY-MM-DD/name.ext\<close>, which is what its last two segments spell.
\<close>

theorem save_output_file_returns_absolute_path:
  assumes "fst (save_output_file g img name ext w) = Inr p"
  shows "p = as_posix (os_path_join (output_dir g)
                 (os_path_join (strftime_ymd (clock w)) (name @ ''.'' @ ext)))
         \<and> (as_posix (output_dir g) = output_dir g \<and> startswith_sep (output_dir g)
              \<and> \<not> endswith_sep (output_dir g)
              \<and> name \<noteq> [] \<and> CHR ''/'' \<notin> set name \<and> CHR ''/'' \<notin> set ext
            \<longrightarrow> p = output_dir g @ ''/'' @ strftime_ymd (clock w) @ ''/'' @ name @ ''.'' @ ext
                \<and> startswith_sep p
                \<and> p \<noteq> strftime_ymd (clock w) @ ''/'' @ name @ ''.'' @ ext
                \<and> join_py ''/'' (slice_last2 (split_py (CHR ''/'') p))
                    = strftime_ymd (clock w) @ ''/'' @ name @ ''.'' @ ext)"
proof (intro conjI impI)
  show "p = as_posix (os_path_join (output_dir g)
                 (os_path_join (strftime_ymd (clock w)) (name @ ''.'' @ ext)))"
    using assms by (rule save_output_file_Inr)
next
  assume a: "as_posix (output_dir g) = output_dir g \<and> startswith_sep (output_dir g)
              \<and> \<not> endswith_sep (output_dir g)
              \<and> name \<noteq> [] \<and> CHR ''/'' \<notin> set name \<and> CHR ''/'' \<notin> set ext"
  then have od: "as_posix (output_dir g) = output_dir g \<and> startswith_sep (output_dir g)
              \<and> \<not> endswith_sep (output_dir g)"
    and nm: "name \<noteq> [] \<and> CHR ''/'' \<notin> set name \<and> CHR ''/'' \<notin> set ext"
    by simp_all
  note r = save_output_file_normal [OF assms od nm]
  show "p = output_dir g @ ''/'' @ strftime_ymd (clock w) @ ''/'' @ name @ ''.'' @ ext"
    by (rule r [THEN conjunct1])
  show "startswith_sep p"
    by (rule r [THEN conjunct2, THEN conjunct1])
  show "p \<noteq> strftime_ymd (clock w) @ ''/'' @ name @ ''.'' @ ext"
    by (rule r [THEN conjunct2, THEN conjunct2, THEN conjunct1])
  show "join_py ''/'' (slice_last2 (split_py (CHR ''/'') p))
                    = strftime_ymd (clock w) @ ''/'' @ name @ ''.'' @ ext"
    by (rule r [THEN conjunct2, THEN conjunct2, THEN conjunct2])
qed

theorem save_output_file_returns_absolute_path_witness:
  "fst (save_output_file example_globals (Str ''/tmp/a.png'') ''render1'' ''png'' example_world)
     = Inr ''/app/outputs/files/2024-03-22/render1.png''
   \<and> as_posix (output_dir example_globals) = output_dir example_globals
   \<and> startswith_sep (output_dir example_globals)
   \<and> \<not> endswith_sep (output_dir example_globals)
   \<and> ''render1'' \<noteq> [] \<and> CHR ''/'' \<notin> set ''render1'' \<and> CHR ''/'' \<notin> set ''png''
   \<and> ''/app/outputs/files/2024-03-22/render1.png''
       = output_dir example_globals @ ''/'' @ strftime_ymd (clock example_world) @ ''/''
           @ ''render1'' @ ''.'' @ ''png''
   \<and> join_py ''/'' (slice_last2 (split_py (CHR ''/'')
          ''/app/outputs/files/2024-03-22/render1.png'')) = ''2024-03-22/render1.png''"
proof -
  have h: "fst (save_output_file example_globals (Str ''/tmp/a.png'') ''render1'' ''png''
             example_world) = Inr ''/app/outputs/files/2024-03-22/render1.png''"
    by (simp add: example_save_str)
  have nm: "''render1'' \<noteq> [] \<and> CHR ''/'' \<notin> set ''render1'' \<and> CHR ''/'' \<notin> set ''png''"
    by simp
  have c: "as_posix (output_dir example_globals) = output_dir example_globals
           \<and> startswith_sep (output_dir example_globals)
           \<and> \<not> endswith_sep (output_dir example_globals)
           \<and> ''render1'' \<noteq> [] \<and> CHR ''/'' \<notin> set ''render1'' \<and> CHR ''/'' \<notin> set ''png''"
    using example_as_posix_output_dir nm by simp
  note r = save_output_file_returns_absolute_path [OF h, THEN conjunct2, THEN mp, OF c]
  have e: "''/app/outputs/files/2024-03-22/render1.png''
       = output_dir example_globals @ ''/'' @ strftime_ymd (clock example_world) @ ''/''
           @ ''render1'' @ ''.'' @ ''png''"
    by (rule r [THEN conjunct1])
  have s: "join_py ''/'' (slice_last2 (split_py (CHR ''/'')
          ''/app/outputs/files/2024-03-22/render1.png'')) = ''2024-03-22/render1.png''"
    using r [THEN conjunct2, THEN conjunct2, THEN conjunct2] by (simp add: example_date)
  show ?thesis
    using h c e s by (intro conjI) simp_all
qed

text \<open>
  On 2024-03-22, with the output directory \<^verbatim>\<open>/app/outputs/files\<close>, persisting the
  temporary file under the name \<^verbatim>\<open>render1\<close> and the extension \<^verbatim>\<open>png\<close> succeeds and
  returns the absolute path, not \<^verbatim>\<open>2024-03-22/render1.png\<close>.
\<close>

theorem save_output_file_relative_path_counterexample:
  "strftime_ymd (clock example_world) = ''2024-03-22''
   \<and> fst (save_output_file example_globals (Str ''/tmp/a.png'') ''render1'' ''png''
          example_world) = Inr ''/app/outputs/files/2024-03-22/render1.png''
   \<and> fst (save_output_file example_globals (Str ''/tmp/a.png'') ''render1'' ''png''
          example_world) \<noteq> Inr ''2024-03-22/render1.png''"
  by (simp add: example_date example_save_str)

end
